theory Spec2Isabelle
  imports Complex_Main "HOL-Library.Sublist" "HOL-Library.AList"
begin

section \<open>Python values and strings\<close>

text \<open>
  The gem server is Python.  A \<open>str\<close> is modelled as a \<open>string\<close>; one \<open>char\<close> stands
  for one code point below 256 (HTTP header values reach the code decoded as Latin-1, so
  every code point of a header is of that kind).  Values that come out of a JSON document
  (a JWT payload, a control message of the CDP proxy) are values of \<open>json\<close>: an object is
  the list of the items of the Python \<open>dict\<close>, in insertion order, with distinct keys.
  A clock reading \<open>now\<close> is the value of \<open>time.time()\<close>, a real number of seconds;
  \<open>int(x)\<close> cuts its fraction off.
\<close>

definition py_int :: "real \<Rightarrow> int" where
  "py_int x = (if 0 \<le> x then \<lfloor>x\<rfloor> else \<lceil>x\<rceil>)"

datatype json =
    JNull
  | JBool bool
  | JInt int
  | JFloat real
  | JStr string
  | JArr "json list"
  | JObj "(string \<times> json) list"

text \<open>Python's truth value of an object (\<open>bool(x)\<close>, \<open>if x\<close>, \<open>x and ...\<close>).\<close>

fun truthy :: "json \<Rightarrow> bool" where
  "truthy JNull = False"
| "truthy (JBool b) = b"
| "truthy (JInt i) = (i \<noteq> 0)"
| "truthy (JFloat r) = (r \<noteq> 0)"
| "truthy (JStr s) = (s \<noteq> [])"
| "truthy (JArr xs) = (xs \<noteq> [])"
| "truthy (JObj kvs) = (kvs \<noteq> [])"

text \<open>
  \<open>str.isspace\<close> and \<open>str.lower\<close> on code points below 256: the white space characters
  are 9 to 13, 28 to 32, 133 and 160; the letters with a lower-case form are A to Z and
  192 to 222 except 215, and the lower-case form is 32 further on (bit 5 set).
\<close>

definition py_isspace :: "char \<Rightarrow> bool" where
  "py_isspace c = (let n = (of_char c :: nat) in
     (9 \<le> n \<and> n \<le> 13) \<or> (28 \<le> n \<and> n \<le> 32) \<or> n = 133 \<or> n = 160)"

fun set_bit5 :: "char \<Rightarrow> char" where
  "set_bit5 (Char b0 b1 b2 b3 b4 b5 b6 b7) = Char b0 b1 b2 b3 b4 True b6 b7"

definition py_lower_char :: "char \<Rightarrow> char" where
  "py_lower_char c = (let n = (of_char c :: nat) in
     if (65 \<le> n \<and> n \<le> 90) \<or> (192 \<le> n \<and> n \<le> 222 \<and> n \<noteq> 215)
     then set_bit5 c else c)"

definition py_lower :: "string \<Rightarrow> string" where
  "py_lower s = map py_lower_char s"

text \<open>
  \<open>s.split(maxsplit=1)\<close>: leading white space is dropped, the first word ends at the next
  white space, and what follows the white space after it is the second element, kept as
  it is up to the end of the string.  The result has zero, one or two elements.
\<close>

definition split_maxsplit1 :: "string \<Rightarrow> string list" where
  "split_maxsplit1 s =
     (let s1 = dropWhile py_isspace s in
      if s1 = [] then []
      else
        let w = takeWhile (\<lambda>c. \<not> py_isspace c) s1;
            r = dropWhile py_isspace (dropWhile (\<lambda>c. \<not> py_isspace c) s1)
        in if r = [] then [w] else [w, r])"

text \<open>\<open>s.split(sep)\<close> for a separator of one character: never an empty list.\<close>

fun split_on :: "char \<Rightarrow> string \<Rightarrow> string list" where
  "split_on sep [] = [[]]"
| "split_on sep (c # cs) =
     (if c = sep then [] # split_on sep cs
      else (case split_on sep cs of
              [] \<Rightarrow> [[c]]
            | w # ws \<Rightarrow> (c # w) # ws))"

text \<open>\<open>sub in s\<close>: \<open>sub\<close> occurs in \<open>s\<close> as a contiguous run.\<close>

fun py_in :: "string \<Rightarrow> string \<Rightarrow> bool" where
  "py_in sub [] = (sub = [])"
| "py_in sub (c # cs) = (prefix sub (c # cs) \<or> py_in sub cs)"

text \<open>
  What the code takes from libraries that are not part of the repository and that this
  theory does not implement: each is a field of \<open>pylib\<close>, and every theorem holds for
  every value of it.
  \<^item> \<open>check_bracketed_host\<close>: whether \<open>urllib.parse\<close> accepts the text between \<open>[\<close> and
    \<open>]\<close> of a network location as an IPv6 or IPvFuture address (on a Python without
    that check it is constantly true);
  \<^item> \<open>unquote\<close>: \<open>urllib.parse.unquote\<close>, the decoding of percent escapes as UTF-8 with
    the replacement character for invalid sequences;
  \<^item> \<open>jwt_decode\<close>: PyJWT's \<open>decode(token, key, algorithms)\<close>, the verification of the
    signature and of the registered claims, with its own reading of the clock;
  \<^item> \<open>json_loads\<close>: \<open>json.loads\<close> on a text.  It returns the value, or it raises
    \<open>JSONDecodeError\<close> for a text that is not a JSON document, or it raises another
    error: \<open>RecursionError\<close> for a document nested too deeply, \<open>ValueError\<close> for an
    integer of more digits than the interpreter converts.
\<close>

text \<open>
  What a function raises instead of returning: an \<open>HTTPException\<close> with its status code
  and detail, a \<open>ValueError\<close> or a \<open>RecursionError\<close>.
\<close>

datatype error =
    HTTPException int string
  | ValueError
  | RecursionError

datatype decode_result =
    Decoded "(string \<times> json) list"
  | ExpiredSignatureError
  | PyJWTError string

datatype loads_result =
    Loaded json
  | JSONDecodeError
  | LoadsRaised error

record pylib =
  check_bracketed_host :: "string \<Rightarrow> bool"
  unquote :: "string \<Rightarrow> string"
  jwt_decode :: "string \<Rightarrow> string \<Rightarrow> string list \<Rightarrow> decode_result"
  json_loads :: "string \<Rightarrow> loads_result"

section \<open>The TTL cache\<close>

text \<open>
  Both caches of the authentication service are \<open>cachelib.SimpleCache\<close> objects with the
  default threshold of 500 entries.  The cache is a \<open>dict\<close> from a key to the pair of
  the expiry time and the value: here the list of its items, in insertion order, with
  distinct keys.
  \<^item> \<open>_normalize_timeout\<close>: a positive timeout gives the expiry \<open>int(time()) + timeout\<close>;
    a timeout that is not positive is the expiry itself.
  \<^item> \<open>_remove_expired\<close> takes out the entries whose expiry is before the clock (an entry
    with expiry 0 is one of them).
  \<^item> \<open>_remove_older\<close> goes through the keys in the order of their expiry, earliest
    first, takes each out, and stops as soon as the cache is not over the threshold.
  \<^item> \<open>_prune\<close>: a cache over the threshold loses its expired entries, and if it is
    still over the threshold then, its oldest ones.
  \<^item> \<open>set(key, value, timeout)\<close> computes the expiry, prunes, and then stores the
    entry under the key.
  \<^item> \<open>get(key)\<close> returns the value when the expiry is 0 (which the library reads as
    "never expires") or later than the clock, and \<open>None\<close> otherwise; it does not
    change the cache.

  The readings of the clock within one \<open>set\<close> are taken to be the same.
\<close>

type_synonym cache = "(string \<times> int \<times> bool) list"

definition threshold :: nat where
  "threshold = 500"

definition normalize_timeout :: "real \<Rightarrow> int \<Rightarrow> int" where
  "normalize_timeout now timeout =
     (if 0 < timeout then py_int now + timeout else timeout)"

definition over_threshold :: "cache \<Rightarrow> bool" where
  "over_threshold c = (threshold < length c)"

definition remove_expired :: "cache \<Rightarrow> real \<Rightarrow> cache" where
  "remove_expired c now = filter (\<lambda>(key, expires, v). \<not> real_of_int expires < now) c"

fun pop_until_fits :: "string list \<Rightarrow> cache \<Rightarrow> cache" where
  "pop_until_fits [] c = c"
| "pop_until_fits (k # ks) c =
     (let c' = AList.delete k c in
      if \<not> over_threshold c' then c' else pop_until_fits ks c')"

definition remove_older :: "cache \<Rightarrow> cache" where
  "remove_older c =
     pop_until_fits (map fst (sort_key (\<lambda>(key, expires, v). expires) c)) c"

definition prune :: "cache \<Rightarrow> real \<Rightarrow> cache" where
  "prune c now =
     (let c1 = (if over_threshold c then remove_expired c now else c)
      in if over_threshold c1 then remove_older c1 else c1)"

definition cache_set :: "cache \<Rightarrow> real \<Rightarrow> string \<Rightarrow> bool \<Rightarrow> int \<Rightarrow> cache" where
  "cache_set c now key v timeout =
     (let expires = normalize_timeout now timeout in
      AList.update key (expires, v) (prune c now))"

definition cache_get :: "cache \<Rightarrow> real \<Rightarrow> string \<Rightarrow> bool option" where
  "cache_get c now key =
     (case map_of c key of
        None \<Rightarrow> None
      | Some (expires, v) \<Rightarrow>
          if expires = 0 \<or> now < real_of_int expires then Some v else None)"

section \<open>Authentication: \<open>routers/auth.py\<close>\<close>

record AuthConfig =
  jwt_algorithms :: "string list"
  default_ticket_ttl :: int
  default_cache_ttl :: int
  jwt_public_key :: "string option"
  ticket_ttl :: int

text \<open>
  \<open>AuthConfig._load_ticket_ttl\<close>: the value of the environment variable, when it is set,
  is read with \<open>int\<close> (the argument \<open>parse_int\<close>, \<open>None\<close> for \<open>ValueError\<close>); a value that
  is not an integer or is negative gives the default.  Zero is accepted.
\<close>

definition load_ticket_ttl :: "(string \<Rightarrow> int option) \<Rightarrow> int \<Rightarrow> string option \<Rightarrow> int" where
  "load_ticket_ttl parse_int dflt raw_value =
     (case raw_value of
        None \<Rightarrow> dflt
      | Some raw \<Rightarrow>
          (case parse_int raw of
             None \<Rightarrow> dflt
           | Some parsed_ttl \<Rightarrow> if 0 \<le> parsed_ttl then parsed_ttl else dflt))"

record AuthService =
  jwt_cache :: cache
  ticket_cache :: cache

text \<open>
  \<open>create_ticket\<close>: \<open>ticket\<close> is the text of the fresh UUID, which the environment
  supplies.  The result is the response (\<open>ticket\<close>, \<open>expires_in\<close>) and the service after
  the call.
\<close>

definition create_ticket :: "AuthConfig \<Rightarrow> string \<Rightarrow> real \<Rightarrow> AuthService \<Rightarrow> (string \<times> int) \<times> AuthService" where
  "create_ticket config ticket now service =
     ((ticket, ticket_ttl config),
      service\<lparr>ticket_cache := cache_set (ticket_cache service) now ticket True (ticket_ttl config)\<rparr>)"

definition validate_ticket :: "AuthService \<Rightarrow> real \<Rightarrow> string \<Rightarrow> bool" where
  "validate_ticket service now ticket =
     (case cache_get (ticket_cache service) now ticket of
        None \<Rightarrow> False
      | Some v \<Rightarrow> v)"

subsection \<open>The query string of a URI\<close>

text \<open>
  \<open>urlparse(uri).query\<close>, after \<open>urllib.parse.urlsplit\<close>: leading control characters and
  spaces are dropped, tabs and line breaks are removed, a scheme (a letter, then letters,
  digits, \<open>+\<close>, \<open>-\<close> or \<open>.\<close>, up to the first colon) is cut off, after \<open>//\<close> the network
  location up to the first \<open>/\<close>, \<open>?\<close> or \<open>#\<close> is cut off and checked, the fragment after
  the first \<open>#\<close> is cut off, and the query is what follows the first \<open>?\<close> of the rest.
  The check of the network location raises \<open>ValueError\<close> for a \<open>[\<close> without \<open>]\<close>, a
  \<open>]\<close> without \<open>[\<close>, and a bracketed host that is not accepted; its last part, which
  looks at the NFKC form of the location, never fails for code points below 256.
\<close>

definition c0_control_or_space :: "char \<Rightarrow> bool" where
  "c0_control_or_space c = ((of_char c :: nat) \<le> 32)"

definition unsafe_url_byte :: "char \<Rightarrow> bool" where
  "unsafe_url_byte c = (c = CHR 0x09 \<or> c = CHR 0x0D \<or> c = CHR 0x0A)"

definition ascii_alpha :: "char \<Rightarrow> bool" where
  "ascii_alpha c = (let n = (of_char c :: nat) in (65 \<le> n \<and> n \<le> 90) \<or> (97 \<le> n \<and> n \<le> 122))"

definition scheme_char :: "char \<Rightarrow> bool" where
  "scheme_char c = (let n = (of_char c :: nat) in
     (65 \<le> n \<and> n \<le> 90) \<or> (97 \<le> n \<and> n \<le> 122) \<or> (48 \<le> n \<and> n \<le> 57)
     \<or> c = CHR ''+'' \<or> c = CHR ''-'' \<or> c = CHR ''.'')"

definition strip_scheme :: "string \<Rightarrow> string" where
  "strip_scheme url =
     (let pre = takeWhile (\<lambda>c. c \<noteq> CHR '':'') url in
      if CHR '':'' \<in> set url \<and> pre \<noteq> [] \<and> ascii_alpha (hd pre) \<and> list_all scheme_char pre
      then tl (dropWhile (\<lambda>c. c \<noteq> CHR '':'') url)
      else url)"

definition netloc_delim :: "char \<Rightarrow> bool" where
  "netloc_delim c = (c = CHR ''/'' \<or> c = CHR ''?'' \<or> c = CHR ''#'')"

definition netloc_ok :: "pylib \<Rightarrow> string \<Rightarrow> bool" where
  "netloc_ok L netloc =
     (let lb = CHR ''['' \<in> set netloc; rb = CHR '']'' \<in> set netloc in
      if lb \<and> rb
      then check_bracketed_host L
             (takeWhile (\<lambda>c. c \<noteq> CHR '']'') (tl (dropWhile (\<lambda>c. c \<noteq> CHR ''['') netloc)))
      else \<not> lb \<and> \<not> rb)"

definition query_of :: "string \<Rightarrow> string" where
  "query_of url =
     (let u = takeWhile (\<lambda>c. c \<noteq> CHR ''#'') url in
      if CHR ''?'' \<in> set u then tl (dropWhile (\<lambda>c. c \<noteq> CHR ''?'') u) else [])"

definition urlparse_query :: "pylib \<Rightarrow> string \<Rightarrow> error + string" where
  "urlparse_query L uri =
     (let url = strip_scheme (filter (\<lambda>c. \<not> unsafe_url_byte c) (dropWhile c0_control_or_space uri)) in
      if take 2 url = ''//''
      then
        (let netloc = takeWhile (\<lambda>c. \<not> netloc_delim c) (drop 2 url);
             rest = dropWhile (\<lambda>c. \<not> netloc_delim c) (drop 2 url)
         in if netloc_ok L netloc then Inr (query_of rest) else Inl ValueError)
      else Inr (query_of url))"

text \<open>
  \<open>parse_qsl(qs)\<close> with its defaults: the fields are the pieces between \<open>&\<close>; a field
  is cut at its first \<open>=\<close>; a field with an empty value (or with no \<open>=\<close>) is left out;
  in the name and the value of the others \<open>+\<close> becomes a space and percent escapes are
  decoded.  \<open>parse_qs\<close> collects the values by name in a \<open>dict\<close>, each list in the
  order of the query string.
\<close>

definition unquote_plus :: "pylib \<Rightarrow> string \<Rightarrow> string" where
  "unquote_plus L s = unquote L (map (\<lambda>c. if c = CHR ''+'' then CHR '' '' else c) s)"

definition partition_eq :: "string \<Rightarrow> string \<times> string" where
  "partition_eq name_value =
     (takeWhile (\<lambda>c. c \<noteq> CHR ''='') name_value,
      drop 1 (dropWhile (\<lambda>c. c \<noteq> CHR ''='') name_value))"

definition parse_qsl :: "pylib \<Rightarrow> string \<Rightarrow> (string \<times> string) list" where
  "parse_qsl L qs =
     (if qs = [] then []
      else concat (map (\<lambda>name_value.
             if name_value \<noteq> [] then
               (let (name, val) = partition_eq name_value in
                if val \<noteq> [] then [(unquote_plus L name, unquote_plus L val)] else [])
             else [])
           (split_on CHR ''&'' qs)))"

definition parse_qs_add :: "(string \<times> string list) list \<Rightarrow> string \<times> string \<Rightarrow> (string \<times> string list) list" where
  "parse_qs_add parsed_result nv =
     (case map_of parsed_result (fst nv) of
        Some vs \<Rightarrow> AList.update (fst nv) (vs @ [snd nv]) parsed_result
      | None \<Rightarrow> parsed_result @ [(fst nv, [snd nv])])"

definition parse_qs :: "pylib \<Rightarrow> string \<Rightarrow> (string \<times> string list) list" where
  "parse_qs L qs = foldl parse_qs_add [] (parse_qsl L qs)"

definition parse_ticket_from_uri :: "pylib \<Rightarrow> string \<Rightarrow> error + string option" where
  "parse_ticket_from_uri L original_uri =
     (case urlparse_query L original_uri of
        Inl e \<Rightarrow> Inl e
      | Inr query \<Rightarrow>
          Inr (case map_of (parse_qs L query) ''ticket'' of
                 None \<Rightarrow> None
               | Some ticket_list \<Rightarrow> if ticket_list \<noteq> [] then Some (last ticket_list) else None))"

subsection \<open>JWT validation and the gateway\<close>

text \<open>
  The headers of a request are the list of its items with lower-case names, as the ASGI
  server hands them over; \<open>request.headers.get(key)\<close> looks the lower-cased key up and
  returns the first item of that name.  A handler's JSON answer (\<open>Dict[str, str]\<close>) is
  the list of its items.
\<close>

type_synonym headers = "(string \<times> string) list"

definition headers_get :: "headers \<Rightarrow> string \<Rightarrow> string option" where
  "headers_get hs key = map_of hs (py_lower key)"

definition headers_get_default :: "headers \<Rightarrow> string \<Rightarrow> string \<Rightarrow> string" where
  "headers_get_default hs key dflt = (case headers_get hs key of None \<Rightarrow> dflt | Some v \<Rightarrow> v)"

definition cache_hit :: "cache \<Rightarrow> real \<Rightarrow> string \<Rightarrow> bool" where
  "cache_hit c now key = (case cache_get c now key of None \<Rightarrow> False | Some v \<Rightarrow> v)"

text \<open>\<open>isinstance(x, int)\<close> holds of integers and of booleans, which count as 1 and 0.\<close>

fun isinstance_int :: "json \<Rightarrow> bool" where
  "isinstance_int (JInt i) = True"
| "isinstance_int (JBool b) = True"
| "isinstance_int v = False"

fun int_of_json :: "json \<Rightarrow> int" where
  "int_of_json (JInt i) = i"
| "int_of_json (JBool b) = (if b then 1 else 0)"
| "int_of_json v = 0"

definition validate_jwt :: "pylib \<Rightarrow> AuthConfig \<Rightarrow> AuthService \<Rightarrow> real \<Rightarrow> string
    \<Rightarrow> (error + (string \<times> string) list) \<times> AuthService" where
  "validate_jwt L config service now token =
     (case jwt_public_key config of
        None \<Rightarrow>
          (Inl (HTTPException 503
             ''Authentication is not possible. JWT public key has not been configured.''), service)
      | Some key \<Rightarrow>
          if key = [] then
            (Inl (HTTPException 503
               ''Authentication is not possible. JWT public key has not been configured.''), service)
          else if cache_hit (jwt_cache service) now token then
            (Inr [(''status'', ''ok''), (''message'', ''Access granted from cache.'')], service)
          else
            (case jwt_decode L token key (jwt_algorithms config) of
               Decoded payload \<Rightarrow>
                 (Inr [(''status'', ''ok''), (''message'', ''Access granted after validation.'')],
                  (case map_of payload ''exp'' of
                     None \<Rightarrow>
                       service\<lparr>jwt_cache :=
                         cache_set (jwt_cache service) now token True (default_cache_ttl config)\<rparr>
                   | Some exp_claim \<Rightarrow>
                       if truthy exp_claim \<and> isinstance_int exp_claim then
                         (let ttl = int_of_json exp_claim - py_int now in
                          if 0 < ttl
                          then service\<lparr>jwt_cache := cache_set (jwt_cache service) now token True ttl\<rparr>
                          else service)
                       else
                         service\<lparr>jwt_cache :=
                           cache_set (jwt_cache service) now token True (default_cache_ttl config)\<rparr>))
             | ExpiredSignatureError \<Rightarrow> (Inl (HTTPException 401 ''Token has expired''), service)
             | PyJWTError e \<Rightarrow> (Inl (HTTPException 401 (''Invalid token: '' @ e)), service)))"

definition invalid_format_detail :: string where
  "invalid_format_detail =
     ''Invalid authorization header format. Must be 'Bearer <token>'' @ [CHR 0x27]"

definition authenticate_request :: "pylib \<Rightarrow> AuthConfig \<Rightarrow> AuthService \<Rightarrow> real \<Rightarrow> headers
    \<Rightarrow> (error + (string \<times> string) list) \<times> AuthService" where
  "authenticate_request L config service now hs =
     (let original_uri = headers_get_default hs ''x-original-uri'' [] in
      case parse_ticket_from_uri L original_uri of
        Inl e \<Rightarrow> (Inl e, service)
      | Inr ticket \<Rightarrow>
          if ticket \<noteq> None \<and> ticket \<noteq> Some [] then
            (if validate_ticket service now (the ticket)
             then (Inr [(''status'', ''ok''), (''message'', ''Ticket validated.'')], service)
             else (Inl (HTTPException 401 ''Invalid or expired ticket.''), service))
          else
            (case headers_get hs ''Authorization'' of
               None \<Rightarrow> (Inl (HTTPException 401 ''Authorization header is missing''), service)
             | Some auth_header \<Rightarrow>
                 if auth_header = [] then
                   (Inl (HTTPException 401 ''Authorization header is missing''), service)
                 else
                   (case split_maxsplit1 auth_header of
                      [token_type, token] \<Rightarrow>
                        if py_lower token_type \<noteq> ''bearer'' then
                          (Inl (HTTPException 401 invalid_format_detail), service)
                        else validate_jwt L config service now token
                    | _ \<Rightarrow>
                        (Inl (HTTPException 401 invalid_format_detail), service))))"

section \<open>The CDP proxy: \<open>routers/cdp.py\<close>\<close>

record CDPProxyConfig =
  custom_command_domain :: string
  websocket_max_size :: int
  websocket_ping_interval :: int
  websocket_ping_timeout :: int
  cdp_origin :: "string option"
  cdp_netloc :: "string option"

text \<open>\<open>is_configured\<close>: both values are set and not empty.\<close>

definition is_configured :: "CDPProxyConfig \<Rightarrow> bool" where
  "is_configured config =
     (case cdp_origin config of
        None \<Rightarrow> False
      | Some origin \<Rightarrow>
          origin \<noteq> [] \<and> (case cdp_netloc config of None \<Rightarrow> False | Some netloc \<Rightarrow> netloc \<noteq> []))"

subsection \<open>Rewriting the WebSocket URLs of a discovery response\<close>

text \<open>
  \<open>ws_url_pattern\<close> is the regular expression
  \<^verbatim>\<open>"(ws[s]?://)([^/]+)(/devtools/[^"]*)"\<close>.
  \<open>ws_url_match s\<close> is its match at the start of \<open>s\<close>: the third group and the text
  after the match.  No part of the pattern can match in two ways: the host is the
  longest run without \<open>/\<close> (it is followed by \<open>/\<close>), and the path ends at the first
  double quote.
\<close>

definition dquote :: char where
  "dquote = CHR 0x22"

definition ws_url_match :: "string \<Rightarrow> (string \<times> string) option" where
  "ws_url_match s =
     (if prefix (dquote # ''ws'') s then
        (let r0 = drop 3 s;
             r1 = (if prefix ''s'' r0 then drop 1 r0 else r0)
         in if prefix ''://'' r1 then
              (let r2 = drop 3 r1;
                   host = takeWhile (\<lambda>c. c \<noteq> CHR ''/'') r2;
                   r3 = dropWhile (\<lambda>c. c \<noteq> CHR ''/'') r2
               in if host \<noteq> [] \<and> prefix ''/devtools/'' r3 then
                    (let r4 = drop 10 r3;
                         path_tail = takeWhile (\<lambda>c. c \<noteq> dquote) r4;
                         r5 = dropWhile (\<lambda>c. c \<noteq> dquote) r4
                     in if r5 \<noteq> [] then Some (''/devtools/'' @ path_tail, tl r5) else None)
                  else None)
            else None)
      else None)"

lemma tl_dropWhile_drop_shorter:
  assumes "dropWhile P (drop n (dropWhile Q t)) \<noteq> []"
  shows "length (tl (dropWhile P (drop n (dropWhile Q t)))) < length t"
proof -
  have "length (tl (dropWhile P (drop n (dropWhile Q t))))
      < length (dropWhile P (drop n (dropWhile Q t)))"
    using assms by (cases "dropWhile P (drop n (dropWhile Q t))") auto
  also have "\<dots> \<le> length (drop n (dropWhile Q t))"
    by (rule length_dropWhile_le)
  also have "\<dots> \<le> length (dropWhile Q t)"
    by simp
  also have "\<dots> \<le> length t"
    by (rule length_dropWhile_le)
  finally show ?thesis .
qed

lemma ws_url_match_shorter:
  assumes "ws_url_match s = Some (path_part, rest)"
  shows "length rest < length s"
proof -
  have six: "length (tl (dropWhile (\<lambda>c. c \<noteq> dquote) (drop 10 (dropWhile Q (drop 6 s))))) < length s"
    if "dquote \<in> set (drop 10 (dropWhile Q (drop 6 s)))" for Q
    using tl_dropWhile_drop_shorter [of "\<lambda>c. c \<noteq> dquote" 10 Q "drop 6 s"] that
    by (simp add: dropWhile_eq_Nil_conv)
  have seven: "length (tl (dropWhile (\<lambda>c. c \<noteq> dquote) (drop 10 (dropWhile Q (drop 7 s))))) < length s"
    if "dquote \<in> set (drop 10 (dropWhile Q (drop 7 s)))" for Q
    using tl_dropWhile_drop_shorter [of "\<lambda>c. c \<noteq> dquote" 10 Q "drop 7 s"] that
    by (simp add: dropWhile_eq_Nil_conv)
  from assms show ?thesis
    by (simp add: ws_url_match_def Let_def split: if_splits) (use six seven in blast)+
qed

text \<open>
  \<open>_rewrite_websocket_urls\<close>: \<open>re.sub\<close> goes through the text from the left; where the
  pattern matches, the match is replaced and the search goes on after it; elsewhere the
  character is kept.
\<close>

function rewrite_websocket_urls :: "string \<Rightarrow> string \<Rightarrow> string \<Rightarrow> string \<Rightarrow> string" where
  "rewrite_websocket_urls [] proxy_host pfx ws_protocol = []"
| "rewrite_websocket_urls (c # cs) proxy_host pfx ws_protocol =
     (case ws_url_match (c # cs) of
        Some (path_part, rest) \<Rightarrow>
          (dquote # ws_protocol @ ''://'' @ proxy_host @ pfx @ path_part @ [dquote])
            @ rewrite_websocket_urls rest proxy_host pfx ws_protocol
      | None \<Rightarrow> c # rewrite_websocket_urls cs proxy_host pfx ws_protocol)"
  by pat_completeness auto
termination
  by (relation "measure (\<lambda>(content, proxy_host, pfx, ws_protocol). length content)")
     (auto dest: ws_url_match_shorter)

subsection \<open>The discovery endpoints\<close>

text \<open>
  The inbound request as the handler reads it, and what the shared HTTP client is asked
  to send.  The upstream side is a function from the outbound request to what the call
  does: it returns a response, or it raises \<open>httpx.TimeoutException\<close>, another
  \<open>httpx.RequestError\<close>, or some other exception.
\<close>

record request =
  req_method :: string
  url_scheme :: string
  url_netloc :: string
  url_path :: string
  req_headers :: headers
  req_body :: string

record outbound =
  out_method :: string
  out_url :: string
  out_headers :: headers
  out_body :: "string option"

datatype upstream_result =
    UpstreamResponse int headers string
  | TimeoutException
  | RequestError
  | OtherException

record response =
  status_code :: int
  content :: string
  resp_headers :: "headers option"
  media_type :: "string option"

text \<open>
  The outbound headers are a \<open>dict\<close> built from the inbound items whose lower-cased name
  is neither \<open>host\<close> nor \<open>accept-encoding\<close>; then \<open>Host\<close> is set to the configured
  network location.
\<close>

definition upstream_headers :: "CDPProxyConfig \<Rightarrow> headers \<Rightarrow> headers" where
  "upstream_headers config hs =
     (let kept = filter (\<lambda>(key, v). py_lower key \<noteq> ''host'' \<and> py_lower key \<noteq> ''accept-encoding'') hs;
          d = foldl (\<lambda>d (key, v). AList.update key v d) [] kept
      in case cdp_netloc config of
           None \<Rightarrow> d
         | Some netloc \<Rightarrow> if netloc \<noteq> [] then AList.update ''Host'' netloc d else d)"

text \<open>The call \<open>http_client.get(origin + path, headers=headers)\<close>: a \<open>GET\<close> with no body.\<close>

definition upstream_request :: "CDPProxyConfig \<Rightarrow> request \<Rightarrow> outbound" where
  "upstream_request config req =
     \<lparr>out_method = ''GET'',
      out_url = (case cdp_origin config of None \<Rightarrow> ''None'' | Some origin \<Rightarrow> origin) @ url_path req,
      out_headers = upstream_headers config (req_headers req),
      out_body = None\<rparr>"

text \<open>
  \<open>handle_http_request\<close>: the result of the handler and the list of the requests it sent
  upstream.
\<close>

definition handle_http_request :: "CDPProxyConfig \<Rightarrow> (outbound \<Rightarrow> upstream_result) \<Rightarrow> request
    \<Rightarrow> (error + response) \<times> outbound list" where
  "handle_http_request config upstream req =
     (if \<not> is_configured config then
        (Inl (HTTPException 503 ''CDP proxy is not properly configured''), [])
      else
        (let pfx = headers_get_default (req_headers req) ''x-forwarded-prefix'' [];
             sent = upstream_request config req
         in (case upstream sent of
               UpstreamResponse st hs body \<Rightarrow>
                 if st \<noteq> 200 then
                   Inr \<lparr>status_code = st, content = body, resp_headers = Some hs, media_type = None\<rparr>
                 else
                   (let proxy_host = headers_get_default (req_headers req) ''host'' (url_netloc req);
                        ws_protocol = (if url_scheme req = ''https'' then ''wss'' else ''ws'')
                    in Inr \<lparr>status_code = st,
                            content = rewrite_websocket_urls body proxy_host pfx ws_protocol,
                            resp_headers = None,
                            media_type = headers_get hs ''content-type''\<rparr>)
             | TimeoutException \<Rightarrow> Inl (HTTPException 504 ''CDP request timeout'')
             | RequestError \<Rightarrow> Inl (HTTPException 502 ''CDP connection failed'')
             | OtherException \<Rightarrow> Inl (HTTPException 500 ''Internal server error''),
             [sent])))"

text \<open>
  The route \<open>cdp_http_proxy\<close> is registered for \<open>GET\<close> and \<open>POST\<close> on \<open>/json\<close> and
  \<open>/json/{path}\<close> and hands the request to \<open>handle_http_request\<close>.
\<close>

definition cdp_http_proxy :: "CDPProxyConfig \<Rightarrow> (outbound \<Rightarrow> upstream_result) \<Rightarrow> request
    \<Rightarrow> (error + response) \<times> outbound list" where
  "cdp_http_proxy config upstream req = handle_http_request config upstream req"

subsection \<open>The WebSocket endpoint\<close>

text \<open>
  What \<open>handle_websocket_request\<close> does on the inbound WebSocket and towards the
  upstream endpoint, as the list of its actions in order.  The argument \<open>session\<close> is
  what happens once the upstream connection is asked for at the given URL: the URL is
  invalid, the connection is closed with a code and a reason, something else fails, or
  the relay runs and ends, with the inbound side disconnected by then or not (the
  \<open>finally\<close> block closes an inbound side that is not yet disconnected).
\<close>

datatype ws_action =
    Accept
  | Close int string
  | Connect string

datatype session_result =
    InvalidURI
  | ConnectionClosed int string
  | Failed
  | Relayed bool

definition handle_websocket_request :: "CDPProxyConfig \<Rightarrow> (string \<Rightarrow> session_result) \<Rightarrow> string
    \<Rightarrow> ws_action list" where
  "handle_websocket_request config session path =
     (if \<not> is_configured config then [Close 1011 ''CDP proxy not configured'']
      else
        (let cdp_ws_url = ''ws://'' @ (case cdp_netloc config of None \<Rightarrow> ''None'' | Some netloc \<Rightarrow> netloc)
                            @ ''/devtools/'' @ path in
         Accept # Connect cdp_ws_url #
           (case session cdp_ws_url of
              InvalidURI \<Rightarrow> [Close 1011 ''Invalid upstream WebSocket URI'']
            | ConnectionClosed code reason \<Rightarrow> [Close code reason]
            | Failed \<Rightarrow> [Close 1011 ''Internal server error'']
            | Relayed disconnected \<Rightarrow> if disconnected then [] else [Close 1000 []])))"

subsection \<open>Custom commands and the relay from the client\<close>

record LoggingState =
  enabled :: bool

text \<open>
  \<open>_handle_custom_command\<close>: whether the message was handled, the JSON values sent to
  the client, and the logging state after the call.  A \<open>JSONDecodeError\<close> and an
  \<open>AttributeError\<close> (\<open>.get\<close> on a value that is not a \<open>dict\<close>) are caught and give
  \<open>False\<close>.  Any other error of \<open>json.loads\<close> is not caught here: the call raises it.
\<close>

definition success_response :: "json \<Rightarrow> json" where
  "success_response command_id = JObj [(''id'', command_id), (''result'', JObj [])]"

definition error_response :: "json \<Rightarrow> int \<Rightarrow> string \<Rightarrow> json" where
  "error_response command_id code message =
     JObj [(''id'', command_id), (''error'', JObj [(''code'', JInt code), (''message'', JStr message)])]"

definition handle_custom_command :: "pylib \<Rightarrow> CDPProxyConfig \<Rightarrow> string \<Rightarrow> LoggingState
    \<Rightarrow> error + (bool \<times> json list \<times> LoggingState)" where
  "handle_custom_command L config data logging_state =
     (if \<not> py_in (custom_command_domain config) data then Inr (False, [], logging_state)
      else
        (case json_loads L data of
           JSONDecodeError \<Rightarrow> Inr (False, [], logging_state)
         | LoadsRaised e \<Rightarrow> Inl e
         | Loaded (JObj msg_json) \<Rightarrow>
             (case map_of msg_json ''method'' of
                Some (JStr method) \<Rightarrow>
                  if \<not> prefix (custom_command_domain config @ ''.'') method then
                    Inr (False, [], logging_state)
                  else
                    (let command_id = (case map_of msg_json ''id'' of None \<Rightarrow> JNull | Some i \<Rightarrow> i);
                         params = (case map_of msg_json ''params'' of None \<Rightarrow> JObj [] | Some p \<Rightarrow> p)
                     in if method = custom_command_domain config @ ''.setLoggingEnabled'' then
                          (case params of
                             JObj ps \<Rightarrow>
                               Inr (True, [success_response command_id],
                                    logging_state\<lparr>enabled :=
                                      truthy (case map_of ps ''enabled'' of None \<Rightarrow> JBool False | Some e \<Rightarrow> e)\<rparr>)
                           | _ \<Rightarrow> Inr (False, [], logging_state))
                        else
                          Inr (True, [error_response command_id (- 32601) ''Method not found''],
                               logging_state))
              | _ \<Rightarrow> Inr (False, [], logging_state))
         | Loaded _ \<Rightarrow> Inr (False, [], logging_state)))"

text \<open>
  One message received from the client: a frame with its \<open>text\<close> and \<open>bytes\<close> entries
  (each may be absent), a disconnect, or a message of another type.  What is sent
  upstream is a text or a binary frame.
\<close>

datatype ws_message =
    Receive "string option" "string option"
  | Disconnect int string
  | OtherMessage

datatype ws_data = TextData string | BytesData string

text \<open>\<open>message.get("text") or message.get("bytes")\<close>: an absent or empty text gives way to the bytes.\<close>

definition frame_data :: "string option \<Rightarrow> string option \<Rightarrow> ws_data option" where
  "frame_data text bytes =
     (case text of
        Some t \<Rightarrow> if t \<noteq> [] then Some (TextData t) else map_option BytesData bytes
      | None \<Rightarrow> map_option BytesData bytes)"

text \<open>
  One turn of the loop of \<open>_forward_client_to_cdp\<close>: the values sent to the client, the
  frames sent upstream, the logging state, and whether the loop goes on.  An error that
  \<open>_handle_custom_command\<close> raises is caught by the \<open>except Exception\<close> around the loop,
  which logs it: nothing is sent for the frame, and the loop is over.
\<close>

definition forward_client_step :: "pylib \<Rightarrow> CDPProxyConfig \<Rightarrow> ws_message \<Rightarrow> LoggingState
    \<Rightarrow> json list \<times> ws_data list \<times> LoggingState \<times> bool" where
  "forward_client_step L config message logging_state =
     (case message of
        Receive text bytes \<Rightarrow>
          (case frame_data text bytes of
             None \<Rightarrow> ([], [], logging_state, True)
           | Some (TextData data) \<Rightarrow>
               (case handle_custom_command L config data logging_state of
                  Inl e \<Rightarrow> ([], [], logging_state, False)
                | Inr (handled, replies, logging_state') \<Rightarrow>
                    if handled then (replies, [], logging_state', True)
                    else (replies, [TextData data], logging_state', True))
           | Some (BytesData data) \<Rightarrow> ([], [BytesData data], logging_state, True))
      | Disconnect code reason \<Rightarrow> ([], [], logging_state, False)
      | OtherMessage \<Rightarrow> ([], [], logging_state, True))"

text \<open>
  The loop over the messages of a session, up to the first disconnect or the first error
  raised within it.
\<close>

fun forward_client_to_cdp :: "pylib \<Rightarrow> CDPProxyConfig \<Rightarrow> ws_message list \<Rightarrow> LoggingState
    \<Rightarrow> json list \<times> ws_data list \<times> LoggingState" where
  "forward_client_to_cdp L config [] logging_state = ([], [], logging_state)"
| "forward_client_to_cdp L config (message # messages) logging_state =
     (case forward_client_step L config message logging_state of
        (replies, sent, logging_state', continue) \<Rightarrow>
          if continue then
            (case forward_client_to_cdp L config messages logging_state' of
               (replies', sent', logging_state'') \<Rightarrow> (replies @ replies', sent @ sent', logging_state''))
          else (replies, sent, logging_state'))"

section \<open>Notions of the specification\<close>

text \<open>
  The fields of a query string, as the specification speaks of them: the pieces between
  \<open>&\<close>, each cut at its first \<open>=\<close> into a name and a value.  An occurrence of the
  ticket parameter is a field whose decoded name is \<open>ticket\<close>, whatever its value.
  \<open>extract_from_query_spec\<close> follows the words of the specification: the value of the
  last occurrence, or nothing when there is none.  \<open>nonblank_ticket_values\<close> are the
  values of the occurrences whose value is not empty.
\<close>

definition query_fields :: "string \<Rightarrow> (string \<times> string) list" where
  "query_fields qs = map partition_eq (split_on CHR ''&'' qs)"

definition ticket_occurrences :: "pylib \<Rightarrow> string \<Rightarrow> string list" where
  "ticket_occurrences L qs =
     [unquote_plus L v. (n, v) \<leftarrow> query_fields qs, unquote_plus L n = ''ticket'']"

definition extract_from_query_spec :: "pylib \<Rightarrow> string \<Rightarrow> string option" where
  "extract_from_query_spec L qs =
     (if ticket_occurrences L qs = [] then None else Some (last (ticket_occurrences L qs)))"

definition nonblank_ticket_values :: "pylib \<Rightarrow> string \<Rightarrow> string list" where
  "nonblank_ticket_values L qs =
     [unquote_plus L v. (n, v) \<leftarrow> query_fields qs, v \<noteq> [], unquote_plus L n = ''ticket'']"

text \<open>
  A library for the examples: on a text without percent escapes \<open>unquote\<close> returns the
  text; no bracketed host is accepted, every token is rejected and no text is JSON, unless
  an example says otherwise.
\<close>

definition example_lib :: pylib where
  "example_lib =
     \<lparr>check_bracketed_host = (\<lambda>host. False),
      unquote = (\<lambda>s. s),
      jwt_decode = (\<lambda>token key algorithms. PyJWTError ''Signature verification failed''),
      json_loads = (\<lambda>data. JSONDecodeError)\<rparr>"

text \<open>A configuration with a public key, and a service with empty caches.\<close>

definition example_config :: AuthConfig where
  "example_config =
     \<lparr>jwt_algorithms = [''RS256''], default_ticket_ttl = 30, default_cache_ttl = 1800,
      jwt_public_key = Some ''-----BEGIN PUBLIC KEY-----'', ticket_ttl = 30\<rparr>"

definition empty_service :: AuthService where
  "empty_service = \<lparr>jwt_cache = [], ticket_cache = []\<rparr>"

text \<open>
  A run of \<open>create_ticket\<close>, one call for each ticket of the list, in order, all within
  the clock reading \<open>now\<close>: the service after the last call.
\<close>

fun issue_tickets :: "AuthConfig \<Rightarrow> string list \<Rightarrow> real \<Rightarrow> AuthService \<Rightarrow> AuthService" where
  "issue_tickets config [] now service = service"
| "issue_tickets config (ticket # tickets) now service =
     issue_tickets config tickets now (snd (create_ticket config ticket now service))"

text \<open>
  The structural check of a control message, in the words of the specification: the text
  parses as a JSON object whose \<open>method\<close> is a string that starts with the control
  domain and a dot.  \<open>parsed_control_method\<close> gives the method and the object.
  \<open>command_id_of\<close> is the \<open>id\<close> of the message, \<open>None\<close> (JSON \<open>null\<close>) when it has
  none.
\<close>

definition parsed_control_method :: "pylib \<Rightarrow> CDPProxyConfig \<Rightarrow> string
    \<Rightarrow> (string \<times> (string \<times> json) list) option" where
  "parsed_control_method L config data =
     (case json_loads L data of
        Loaded (JObj msg) \<Rightarrow>
          (case map_of msg ''method'' of
             Some (JStr method) \<Rightarrow>
               if prefix (custom_command_domain config @ ''.'') method then Some (method, msg) else None
           | _ \<Rightarrow> None)
      | _ \<Rightarrow> None)"

definition command_id_of :: "(string \<times> json) list \<Rightarrow> json" where
  "command_id_of msg = (case map_of msg ''id'' of None \<Rightarrow> JNull | Some i \<Rightarrow> i)"

text \<open>
  The default configuration of the proxy with both values set, and a \<open>POST\<close> that the
  router forwarded from \<open>https://public.example/cdp/json/version\<close>.
\<close>

definition example_cdp_config :: CDPProxyConfig where
  "example_cdp_config =
     \<lparr>custom_command_domain = ''CDPProxy'', websocket_max_size = 20971520,
      websocket_ping_interval = 20, websocket_ping_timeout = 20,
      cdp_origin = Some ''http://127.0.0.1:9222'', cdp_netloc = Some ''127.0.0.1:9222''\<rparr>"

definition example_request :: request where
  "example_request =
     \<lparr>req_method = ''POST'', url_scheme = ''https'', url_netloc = ''gem:8000'',
      url_path = ''/json/version'',
      req_headers = [(''host'', ''public.example''), (''x-forwarded-prefix'', ''/cdp''),
                     (''content-length'', ''2'')],
      req_body = ''{}''\<rparr>"

text \<open>
  The body of a discovery response, as the specification speaks of it: a sequence of
  pieces, each a quoted session URL \<open>"ws://<host>/devtools/<rest>"\<close> (or \<open>wss\<close>), a
  quoted WebSocket URL with another path, \<open>"ws://<host>/<path>"\<close> (or \<open>wss\<close>), or plain
  text.  \<open>body_text\<close> is the text of the body.  \<open>rewritten_piece\<close> is the piece in the
  answer: the session URL with the scheme, the host and the prefix of the proxy, every
  other piece as it is.  \<open>session_url_at s\<close> says that the text \<open>s\<close> begins with a quoted
  session URL.  In a well-formed sequence
  \<^item> the \<open>s\<close> of the scheme is there or not; the host of a session URL is not empty;
    no host has a \<open>/\<close>; the rest of a session URL, and the host and the path of a URL
    with another path, have no double quote; that other path does not start with
    \<open>devtools/\<close>;
  \<^item> no session URL begins at a position of a plain text (\<open>no_session_url_within\<close>:
    the plain text is looked at together with the pieces that follow it, into which a
    session URL that begins in it would run), and no \<open>"ws\<close> begins at the closing
    quote of a URL with another path.
\<close>

definition session_url_at :: "string \<Rightarrow> bool" where
  "session_url_at s =
     (\<exists>sfx host path_tail rest.
        (sfx = [] \<or> sfx = ''s'') \<and> host \<noteq> [] \<and> CHR ''/'' \<notin> set host
        \<and> dquote \<notin> set path_tail
        \<and> s = dquote # ''ws'' @ sfx @ ''://'' @ host @ ''/devtools/'' @ path_tail @ dquote # rest)"

fun no_session_url_within :: "string \<Rightarrow> string \<Rightarrow> bool" where
  "no_session_url_within [] r = True"
| "no_session_url_within (c # cs) r =
     (\<not> session_url_at ((c # cs) @ r) \<and> no_session_url_within cs r)"

datatype piece =
    Plain string
  | DevtoolsUrl string string string
  | OtherUrl string string string

fun piece_text :: "piece \<Rightarrow> string" where
  "piece_text (Plain t) = t"
| "piece_text (DevtoolsUrl sfx host path_tail) =
     dquote # ''ws'' @ sfx @ ''://'' @ host @ ''/devtools/'' @ path_tail @ [dquote]"
| "piece_text (OtherUrl sfx host path) =
     dquote # ''ws'' @ sfx @ ''://'' @ host @ ''/'' @ path @ [dquote]"

definition body_text :: "piece list \<Rightarrow> string" where
  "body_text ps = concat (map piece_text ps)"

fun rewritten_piece :: "string \<Rightarrow> string \<Rightarrow> string \<Rightarrow> piece \<Rightarrow> string" where
  "rewritten_piece proxy_host pfx ws_protocol (DevtoolsUrl sfx host path_tail) =
     dquote # ws_protocol @ ''://'' @ proxy_host @ pfx @ ''/devtools/'' @ path_tail @ [dquote]"
| "rewritten_piece proxy_host pfx ws_protocol (Plain t) = t"
| "rewritten_piece proxy_host pfx ws_protocol (OtherUrl sfx host path) =
     piece_text (OtherUrl sfx host path)"

fun well_formed :: "piece list \<Rightarrow> bool" where
  "well_formed [] = True"
| "well_formed (Plain t # ps) = (no_session_url_within t (body_text ps) \<and> well_formed ps)"
| "well_formed (DevtoolsUrl sfx host path_tail # ps) =
     ((sfx = [] \<or> sfx = ''s'') \<and> host \<noteq> [] \<and> CHR ''/'' \<notin> set host
      \<and> dquote \<notin> set path_tail \<and> well_formed ps)"
| "well_formed (OtherUrl sfx host path # ps) =
     ((sfx = [] \<or> sfx = ''s'') \<and> CHR ''/'' \<notin> set host \<and> dquote \<notin> set host
      \<and> dquote \<notin> set path \<and> \<not> prefix ''devtools/'' path
      \<and> \<not> prefix ''ws'' (body_text ps) \<and> well_formed ps)"

text \<open>
  A listing of two targets: the session URL of the first with \<open>ws\<close>, that of the second
  with \<open>wss\<close>, and a URL with another path.
\<close>

definition example_listing :: "piece list" where
  "example_listing =
     [Plain (''[{'' @ dquote # ''id'' @ dquote # '': '' @ dquote # ''A1'' @ dquote # '', ''
             @ dquote # ''webSocketDebuggerUrl'' @ dquote # '': ''),
      DevtoolsUrl [] ''127.0.0.1:9222'' ''page/A1'',
      Plain (''}, {'' @ dquote # ''webSocketDebuggerUrl'' @ dquote # '': ''),
      DevtoolsUrl ''s'' ''10.0.0.5'' ''page/B2'',
      Plain ('', '' @ dquote # ''sessionUrl'' @ dquote # '': ''),
      OtherUrl [] ''internalhost'' ''sess/abc'',
      Plain ''}]'']"

text \<open>
  Frames for the examples, and \<open>json.loads\<close> on them.  In \<open>escaped_frame\<close> the last
  letter of the domain name is written as a JSON escape: a backslash (character 0x5C)
  and \<open>u0079\<close>, which \<open>json.loads\<close> reads as the letter \<open>y\<close>.
\<close>

definition set_logging_frame :: string where
  "set_logging_frame =
     ''{'' @ dquote # ''method'' @ dquote # '':'' @ dquote # ''CDPProxy.setLoggingEnabled'' @ dquote # '',''
       @ dquote # ''id'' @ dquote # '':7,'' @ dquote # ''params'' @ dquote # '':{''
       @ dquote # ''enabled'' @ dquote # '':true}}''"

definition bare_set_logging_frame :: string where
  "bare_set_logging_frame =
     ''{'' @ dquote # ''method'' @ dquote # '':'' @ dquote # ''CDPProxy.setLoggingEnabled'' @ dquote # '',''
       @ dquote # ''id'' @ dquote # '':3}''"

definition unknown_verb_frame :: string where
  "unknown_verb_frame =
     ''{'' @ dquote # ''method'' @ dquote # '':'' @ dquote # ''CDPProxy.reset'' @ dquote # '',''
       @ dquote # ''id'' @ dquote # '':8}''"

definition page_enable_frame :: string where
  "page_enable_frame =
     ''{'' @ dquote # ''method'' @ dquote # '':'' @ dquote # ''Page.enable'' @ dquote # '',''
       @ dquote # ''id'' @ dquote # '':9}''"

definition null_params_frame :: string where
  "null_params_frame =
     ''{'' @ dquote # ''method'' @ dquote # '':'' @ dquote # ''CDPProxy.setLoggingEnabled'' @ dquote # '',''
       @ dquote # ''id'' @ dquote # '':5,'' @ dquote # ''params'' @ dquote # '':null}''"

definition escaped_frame :: string where
  "escaped_frame =
     ''{'' @ dquote # ''method'' @ dquote # '':'' @ dquote # ''CDPProx'' @ CHR 0x5C # ''u0079.setLoggingEnabled''
       @ dquote # '','' @ dquote # ''id'' @ dquote # '':7}''"

definition example_json_loads :: "string \<Rightarrow> loads_result" where
  "example_json_loads data =
     (case map_of
        [(set_logging_frame,
          JObj [(''method'', JStr ''CDPProxy.setLoggingEnabled''), (''id'', JInt 7),
                (''params'', JObj [(''enabled'', JBool True)])]),
         (unknown_verb_frame, JObj [(''method'', JStr ''CDPProxy.reset''), (''id'', JInt 8)]),
         (page_enable_frame, JObj [(''method'', JStr ''Page.enable''), (''id'', JInt 9)]),
         (escaped_frame, JObj [(''method'', JStr ''CDPProxy.setLoggingEnabled''), (''id'', JInt 7)]),
         (bare_set_logging_frame, JObj [(''method'', JStr ''CDPProxy.setLoggingEnabled''), (''id'', JInt 3)]),
         (null_params_frame,
          JObj [(''method'', JStr ''CDPProxy.setLoggingEnabled''), (''id'', JInt 5), (''params'', JNull)])]
        data of
        None \<Rightarrow> JSONDecodeError
      | Some v \<Rightarrow> Loaded v)"

section \<open>Properties of the ticket store\<close>

text \<open>
  A key that was just stored is found again as long as its expiry has not come: \<open>set\<close>
  prunes before it stores, so the new entry is never pruned by its own \<open>set\<close>.
\<close>

lemma cache_get_cache_set:
  "cache_get (cache_set c now key v timeout) later key =
     (if normalize_timeout now timeout = 0 \<or> later < real_of_int (normalize_timeout now timeout)
      then Some v else None)"
  by (simp add: cache_get_def cache_set_def update_conv')

text \<open>
  A ticket issued with a positive TTL, checked on the store as \<open>create_ticket\<close> left it:
  it is valid exactly before the whole second of its issue plus the TTL.  (A ticket
  issued at 100.9 with a TTL of one second is refused from 101.0 on.)
\<close>

lemma ticket_valid_until_expiry:
  assumes "0 < ticket_ttl config" and "py_int issued + ticket_ttl config \<noteq> 0"
  shows "validate_ticket (snd (create_ticket config ticket issued service)) now ticket
     = (now < real_of_int (py_int issued + ticket_ttl config))"
  using assms
  by (simp add: create_ticket_def validate_ticket_def cache_get_cache_set normalize_timeout_def)

lemma ticket_valid_until_expiry_examples:
  "map (\<lambda>now. validate_ticket
          (snd (create_ticket
             \<lparr>jwt_algorithms = [''RS256''], default_ticket_ttl = 30, default_cache_ttl = 1800,
               jwt_public_key = None, ticket_ttl = 30\<rparr>
             ''4b1d'' 100 \<lparr>jwt_cache = [], ticket_cache = []\<rparr>)) now ''4b1d'')
        [100, 101, 129, 130, 500]
     = [True, True, True, False, False]
   \<and> \<not> validate_ticket
          (snd (create_ticket
             \<lparr>jwt_algorithms = [''RS256''], default_ticket_ttl = 30, default_cache_ttl = 1800,
               jwt_public_key = None, ticket_ttl = 1\<rparr>
             ''4b1d'' (1009 / 10) \<lparr>jwt_cache = [], ticket_cache = []\<rparr>)) 101 ''4b1d''"
  by (simp add: ticket_valid_until_expiry py_int_def)

text \<open>
  C2.  The claim asks for a ticket that is refused once its TTL has elapsed.  The code
  does not do that for a TTL of zero, which \<open>_load_ticket_ttl\<close> accepts
  (\<open>TICKET_TTL_SECONDS=0\<close>): \<open>create_ticket\<close> answers with \<open>expires_in\<close> 0 and stores
  the ticket with timeout 0, which the cache reads as "never expires"; the ticket issued
  at clock 100 is valid at clock 100, is still valid at clock 100000, and is valid at
  every reading of the clock.
\<close>

theorem ticket_ttl_zero_never_expires:
  "load_ticket_ttl (\<lambda>raw. if raw = ''0'' then Some 0 else None) 30 (Some ''0'') = 0
   \<and> fst (create_ticket
        \<lparr>jwt_algorithms = [''RS256''], default_ticket_ttl = 30, default_cache_ttl = 1800,
          jwt_public_key = None, ticket_ttl = 0\<rparr>
        ''4b1d'' 100 \<lparr>jwt_cache = [], ticket_cache = []\<rparr>) = (''4b1d'', 0)
   \<and> validate_ticket
        (snd (create_ticket
           \<lparr>jwt_algorithms = [''RS256''], default_ticket_ttl = 30, default_cache_ttl = 1800,
             jwt_public_key = None, ticket_ttl = 0\<rparr>
           ''4b1d'' 100 \<lparr>jwt_cache = [], ticket_cache = []\<rparr>)) 100 ''4b1d'' = True
   \<and> validate_ticket
        (snd (create_ticket
           \<lparr>jwt_algorithms = [''RS256''], default_ticket_ttl = 30, default_cache_ttl = 1800,
             jwt_public_key = None, ticket_ttl = 0\<rparr>
           ''4b1d'' 100 \<lparr>jwt_cache = [], ticket_cache = []\<rparr>)) 100000 ''4b1d'' = True
   \<and> (\<forall>later. validate_ticket
        (snd (create_ticket
           \<lparr>jwt_algorithms = [''RS256''], default_ticket_ttl = 30, default_cache_ttl = 1800,
             jwt_public_key = None, ticket_ttl = 0\<rparr>
           ''4b1d'' 100 \<lparr>jwt_cache = [], ticket_cache = []\<rparr>)) later ''4b1d'')"
  by (simp add: load_ticket_ttl_def create_ticket_def validate_ticket_def cache_get_cache_set
      normalize_timeout_def)

section \<open>Properties of the ticket extraction\<close>

lemma parse_qsl_fields:
  "parse_qsl L qs = [(unquote_plus L n, unquote_plus L v). (n, v) \<leftarrow> query_fields qs, v \<noteq> []]"
proof (cases "qs = []")
  case True
  then show ?thesis
    by (simp add: parse_qsl_def query_fields_def partition_eq_def)
next
  case False
  have "(if nv \<noteq> [] then
           (let (name, val) = partition_eq nv in
            if val \<noteq> [] then [(unquote_plus L name, unquote_plus L val)] else [])
         else [])
      = (case partition_eq nv of (n, v) \<Rightarrow>
           if v \<noteq> [] then [(unquote_plus L n, unquote_plus L v)] else [])" for nv
    by (cases "nv = []") (simp_all add: partition_eq_def)
  then show ?thesis
    using False by (simp add: parse_qsl_def query_fields_def map_concat comp_def)
qed

lemma map_of_parse_qs_add:
  "map_of (parse_qs_add d (n, v)) k =
     (if k = n then Some (case map_of d n of None \<Rightarrow> [v] | Some ws \<Rightarrow> ws @ [v]) else map_of d k)"
  by (auto simp: parse_qs_add_def update_conv' map_add_def split: option.splits)

lemma map_of_foldl_parse_qs_add:
  "map_of (foldl parse_qs_add d ps) k =
     (case map_of d k of
        None \<Rightarrow> (if [v. (n, v) \<leftarrow> ps, n = k] = [] then None else Some [v. (n, v) \<leftarrow> ps, n = k])
      | Some ws \<Rightarrow> Some (ws @ [v. (n, v) \<leftarrow> ps, n = k]))"
proof (induction ps arbitrary: d)
  case Nil
  then show ?case by (simp split: option.splits)
next
  case (Cons p ps)
  obtain n v where p: "p = (n, v)" by (cases p)
  show ?case
    by (simp add: p Cons.IH map_of_parse_qs_add split: option.splits)
qed

lemma map_of_parse_qs:
  "map_of (parse_qs L qs) k =
     (if [v. (n, v) \<leftarrow> parse_qsl L qs, n = k] = [] then None
      else Some [v. (n, v) \<leftarrow> parse_qsl L qs, n = k])"
  by (simp add: parse_qs_def map_of_foldl_parse_qs_add)

lemma ticket_values_of_parse_qsl:
  "[v. (n, v) \<leftarrow> parse_qsl L qs, n = ''ticket''] = nonblank_ticket_values L qs"
proof -
  have "[v. (n, v) \<leftarrow> [(f n, f v). (n, v) \<leftarrow> fs, v \<noteq> []], n = k]
      = [f v. (n, v) \<leftarrow> fs, v \<noteq> [], f n = k]"
    for f :: "string \<Rightarrow> string" and fs :: "(string \<times> string) list" and k
    by (induction fs) auto
  then show ?thesis
    by (simp add: parse_qsl_fields nonblank_ticket_values_def)
qed

lemma parse_ticket_from_query:
  "urlparse_query L uri = Inr qs \<Longrightarrow>
   parse_ticket_from_uri L uri =
     Inr (if nonblank_ticket_values L qs = [] then None
          else Some (last (nonblank_ticket_values L qs)))"
  by (simp add: parse_ticket_from_uri_def map_of_parse_qs ticket_values_of_parse_qsl)

text \<open>
  C9 (as amended).  For every URI that \<open>urlparse\<close> takes apart, with query string \<open>qs\<close>:
  \<open>parse_ticket_from_uri\<close> returns the value of the last occurrence of the ticket
  parameter among the occurrences whose value is not empty, and nothing when there is no
  such occurrence (no ticket parameter at all, or only ones with an empty value).
\<close>

theorem parse_ticket_last_nonblank:
  assumes "urlparse_query L uri = Inr qs"
  shows "parse_ticket_from_uri L uri =
     Inr (if nonblank_ticket_values L qs = [] then None
          else Some (last (nonblank_ticket_values L qs)))"
  using assms by (rule parse_ticket_from_query)

text \<open>The example of the specification: \<open>?ticket=a&ticket=b\<close> yields \<open>b\<close>.\<close>

theorem parse_ticket_last_nonblank_witness:
  "urlparse_query example_lib ''/devtools/page/1?ticket=a&ticket=b'' = Inr ''ticket=a&ticket=b''
   \<and> parse_ticket_from_uri example_lib ''/devtools/page/1?ticket=a&ticket=b'' = Inr (Some ''b'')"
proof -
  have q: "urlparse_query example_lib ''/devtools/page/1?ticket=a&ticket=b'' = Inr ''ticket=a&ticket=b''"
    by (simp add: urlparse_query_def strip_scheme_def query_of_def c0_control_or_space_def
        unsafe_url_byte_def)
  have v: "nonblank_ticket_values example_lib ''ticket=a&ticket=b'' = [''a'', ''b'']"
    by (simp add: nonblank_ticket_values_def query_fields_def partition_eq_def unquote_plus_def
        example_lib_def)
  show ?thesis
    using parse_ticket_last_nonblank [OF q] q by (simp add: v)
qed

text \<open>
  C9 as stated fails where the last occurrence of the ticket parameter has an empty
  value: \<open>parse_qs\<close> leaves fields with an empty value out, so for \<open>?ticket=a&ticket=\<close>
  the code returns \<open>a\<close>, while the value of the last occurrence is the empty text.
\<close>

theorem parse_ticket_blank_last_counterexample:
  "ticket_occurrences example_lib ''ticket=a&ticket='' = [''a'', []]
   \<and> extract_from_query_spec example_lib ''ticket=a&ticket='' = Some []
   \<and> urlparse_query example_lib ''/devtools/page/1?ticket=a&ticket='' = Inr ''ticket=a&ticket=''
   \<and> parse_ticket_from_uri example_lib ''/devtools/page/1?ticket=a&ticket='' = Inr (Some ''a'')"
  by (simp add: ticket_occurrences_def extract_from_query_spec_def query_fields_def
      partition_eq_def unquote_plus_def example_lib_def urlparse_query_def strip_scheme_def
      query_of_def c0_control_or_space_def unsafe_url_byte_def parse_ticket_from_uri_def
      parse_qs_def parse_qsl_def parse_qs_add_def)

section \<open>Properties of the authentication gateway\<close>

lemma netloc_ok_jwt_decode: "netloc_ok (L\<lparr>jwt_decode := verifier\<rparr>) netloc = netloc_ok L netloc"
  by (simp add: netloc_ok_def)

lemma urlparse_query_jwt_decode:
  "urlparse_query (L\<lparr>jwt_decode := verifier\<rparr>) uri = urlparse_query L uri"
  by (simp add: urlparse_query_def netloc_ok_jwt_decode Let_def)

lemma unquote_plus_jwt_decode: "unquote_plus (L\<lparr>jwt_decode := verifier\<rparr>) s = unquote_plus L s"
  by (simp add: unquote_plus_def)

lemma parse_qs_jwt_decode: "parse_qs (L\<lparr>jwt_decode := verifier\<rparr>) qs = parse_qs L qs"
  by (simp add: parse_qs_def parse_qsl_def unquote_plus_jwt_decode Let_def cong: if_cong)

lemma parse_ticket_from_uri_jwt_decode:
  "parse_ticket_from_uri (L\<lparr>jwt_decode := verifier\<rparr>) uri = parse_ticket_from_uri L uri"
  by (simp add: parse_ticket_from_uri_def urlparse_query_jwt_decode parse_qs_jwt_decode
      cong: sum.case_cong)

text \<open>
  The decision of \<open>authenticate_request\<close>, by what \<open>parse_ticket_from_uri\<close> does with the
  \<open>X-Original-URI\<close> header (empty when the header is absent).
  \<^item> It raises: \<open>authenticate_request\<close> raises the same error.
  \<^item> It returns a ticket that is not empty: the request is accepted exactly when
    \<open>validate_ticket\<close> holds of that ticket, and rejected with 401 ``Invalid or expired
    ticket.'' otherwise.  The result is the same whatever the JWT verifier \<open>verifier\<close>
    is, and the service (with its JWT cache) is returned as it was: the JWT path is not
    entered.
  \<^item> It returns no ticket, or an empty one, and the \<open>Authorization\<close> header is absent
    or empty: 401.
  \<^item> It returns no ticket, or an empty one, and the header does not split into two
    parts of which the first is \<open>bearer\<close> in any letter case: 401.
  \<^item> It returns no ticket, or an empty one, and the header is \<open>Bearer\<close> (in any letter
    case), white space, and a token: the outcome is that of \<open>_validate_jwt\<close> on the
    token.
\<close>

lemma authenticate_request_cases:
  "(\<forall>e. parse_ticket_from_uri L (headers_get_default hs ''x-original-uri'' []) = Inl e \<longrightarrow>
      authenticate_request L config service now hs = (Inl e, service))
   \<and> (parse_ticket_from_uri L (headers_get_default hs ''x-original-uri'' []) = Inr (Some ticket)
      \<and> ticket \<noteq> [] \<longrightarrow>
      authenticate_request (L\<lparr>jwt_decode := verifier\<rparr>) config service now hs =
        (if validate_ticket service now ticket
         then Inr [(''status'', ''ok''), (''message'', ''Ticket validated.'')]
         else Inl (HTTPException 401 ''Invalid or expired ticket.''), service))
   \<and> (parse_ticket_from_uri L (headers_get_default hs ''x-original-uri'' []) = Inr None
        \<or> parse_ticket_from_uri L (headers_get_default hs ''x-original-uri'' []) = Inr (Some []) \<longrightarrow>
        (headers_get hs ''Authorization'' = None \<or> headers_get hs ''Authorization'' = Some [] \<longrightarrow>
           authenticate_request L config service now hs =
             (Inl (HTTPException 401 ''Authorization header is missing''), service))
      \<and> (\<forall>h. headers_get hs ''Authorization'' = Some h \<and> h \<noteq> []
             \<and> (\<forall>token_type token. split_maxsplit1 h = [token_type, token]
                    \<longrightarrow> py_lower token_type \<noteq> ''bearer'') \<longrightarrow>
           authenticate_request L config service now hs =
             (Inl (HTTPException 401 invalid_format_detail), service))
      \<and> (\<forall>h token_type token. headers_get hs ''Authorization'' = Some h \<and> h \<noteq> []
             \<and> split_maxsplit1 h = [token_type, token] \<and> py_lower token_type = ''bearer'' \<longrightarrow>
           authenticate_request L config service now hs = validate_jwt L config service now token))"
proof (intro conjI impI allI)
  fix e
  assume "parse_ticket_from_uri L (headers_get_default hs ''x-original-uri'' []) = Inl e"
  then show "authenticate_request L config service now hs = (Inl e, service)"
    by (simp add: authenticate_request_def)
next
  assume "parse_ticket_from_uri L (headers_get_default hs ''x-original-uri'' []) = Inr (Some ticket)
      \<and> ticket \<noteq> []"
  then show "authenticate_request (L\<lparr>jwt_decode := verifier\<rparr>) config service now hs =
        (if validate_ticket service now ticket
         then Inr [(''status'', ''ok''), (''message'', ''Ticket validated.'')]
         else Inl (HTTPException 401 ''Invalid or expired ticket.''), service)"
    by (simp add: authenticate_request_def parse_ticket_from_uri_jwt_decode)
next
  assume "parse_ticket_from_uri L (headers_get_default hs ''x-original-uri'' []) = Inr None
        \<or> parse_ticket_from_uri L (headers_get_default hs ''x-original-uri'' []) = Inr (Some [])"
    and "headers_get hs ''Authorization'' = None \<or> headers_get hs ''Authorization'' = Some []"
  then show "authenticate_request L config service now hs =
             (Inl (HTTPException 401 ''Authorization header is missing''), service)"
    by (auto simp: authenticate_request_def)
next
  fix h
  assume "parse_ticket_from_uri L (headers_get_default hs ''x-original-uri'' []) = Inr None
        \<or> parse_ticket_from_uri L (headers_get_default hs ''x-original-uri'' []) = Inr (Some [])"
    and "headers_get hs ''Authorization'' = Some h \<and> h \<noteq> []
             \<and> (\<forall>token_type token. split_maxsplit1 h = [token_type, token]
                    \<longrightarrow> py_lower token_type \<noteq> ''bearer'')"
  then show "authenticate_request L config service now hs =
             (Inl (HTTPException 401 invalid_format_detail), service)"
    by (auto simp: authenticate_request_def split: list.splits)
next
  fix h token_type token
  assume "parse_ticket_from_uri L (headers_get_default hs ''x-original-uri'' []) = Inr None
        \<or> parse_ticket_from_uri L (headers_get_default hs ''x-original-uri'' []) = Inr (Some [])"
    and "headers_get hs ''Authorization'' = Some h \<and> h \<noteq> []
             \<and> split_maxsplit1 h = [token_type, token] \<and> py_lower token_type = ''bearer''"
  then show "authenticate_request L config service now hs = validate_jwt L config service now token"
    by (auto simp: authenticate_request_def)
qed

text \<open>
  The cases at concrete requests: a ticket issued at time 100 with a TTL of 30 is
  accepted at 110 and refused at 130, although the request also carries a bearer token
  that the verifier would accept; without a ticket, a request with no \<open>Authorization\<close>
  header and one with \<open>Basic\<close> credentials are refused, and for \<open>bEARER\<close> followed by a
  token the verifier decides.
\<close>

lemma authenticate_request_examples:
  "authenticate_request
      (example_lib\<lparr>jwt_decode := (\<lambda>token key algorithms. Decoded [])\<rparr>) example_config
      (snd (create_ticket example_config ''4b1d'' 100 empty_service)) 110
      [(''x-original-uri'', ''/devtools/page/1?ticket=4b1d''), (''authorization'', ''Bearer eyJ.e30.c2ln'')]
     = (Inr [(''status'', ''ok''), (''message'', ''Ticket validated.'')],
        snd (create_ticket example_config ''4b1d'' 100 empty_service))
   \<and> authenticate_request
      (example_lib\<lparr>jwt_decode := (\<lambda>token key algorithms. Decoded [])\<rparr>) example_config
      (snd (create_ticket example_config ''4b1d'' 100 empty_service)) 130
      [(''x-original-uri'', ''/devtools/page/1?ticket=4b1d''), (''authorization'', ''Bearer eyJ.e30.c2ln'')]
     = (Inl (HTTPException 401 ''Invalid or expired ticket.''),
        snd (create_ticket example_config ''4b1d'' 100 empty_service))
   \<and> authenticate_request example_lib example_config empty_service 110 [(''x-original-uri'', ''/json'')]
     = (Inl (HTTPException 401 ''Authorization header is missing''), empty_service)
   \<and> authenticate_request example_lib example_config empty_service 110
        [(''x-original-uri'', ''/json''), (''authorization'', ''Basic dXNlcjpwdw=='')]
     = (Inl (HTTPException 401 invalid_format_detail), empty_service)
   \<and> authenticate_request example_lib example_config empty_service 110
        [(''x-original-uri'', ''/json''), (''authorization'', ''bEARER  eyJ.e30.c2ln'')]
     = (Inl (HTTPException 401 ''Invalid token: Signature verification failed''), empty_service)"
proof -
  have uri_ticket: "parse_ticket_from_uri example_lib ''/devtools/page/1?ticket=4b1d'' = Inr (Some ''4b1d'')"
    by (simp add: parse_ticket_from_uri_def urlparse_query_def strip_scheme_def query_of_def
        c0_control_or_space_def unsafe_url_byte_def parse_qs_def parse_qsl_def parse_qs_add_def
        partition_eq_def unquote_plus_def example_lib_def)
  have uri_plain: "parse_ticket_from_uri example_lib ''/json'' = Inr None"
    by (simp add: parse_ticket_from_uri_def urlparse_query_def strip_scheme_def query_of_def
        c0_control_or_space_def unsafe_url_byte_def parse_qs_def parse_qsl_def)
  have lower: "py_lower ''x-original-uri'' = ''x-original-uri''"
      "py_lower ''Authorization'' = ''authorization''"
      "py_lower ''Basic'' = ''basic''" "py_lower ''bEARER'' = ''bearer''"
    by (simp_all add: py_lower_def py_lower_char_def)
  have split: "split_maxsplit1 ''Basic dXNlcjpwdw=='' = [''Basic'', ''dXNlcjpwdw=='']"
      "split_maxsplit1 ''bEARER  eyJ.e30.c2ln'' = [''bEARER'', ''eyJ.e30.c2ln'']"
    by (simp_all add: split_maxsplit1_def py_isspace_def)
  have valid: "validate_ticket (snd (create_ticket example_config ''4b1d'' 100 empty_service)) 110 ''4b1d''"
      "\<not> validate_ticket (snd (create_ticket example_config ''4b1d'' 100 empty_service)) 130 ''4b1d''"
    by (simp_all add: ticket_valid_until_expiry example_config_def py_int_def)
  have a: "authenticate_request
      (example_lib\<lparr>jwt_decode := (\<lambda>token key algorithms. Decoded [])\<rparr>) example_config
      (snd (create_ticket example_config ''4b1d'' 100 empty_service)) 110
      [(''x-original-uri'', ''/devtools/page/1?ticket=4b1d''), (''authorization'', ''Bearer eyJ.e30.c2ln'')]
     = (Inr [(''status'', ''ok''), (''message'', ''Ticket validated.'')],
        snd (create_ticket example_config ''4b1d'' 100 empty_service))"
    using authenticate_request_cases [THEN conjunct2, THEN conjunct1, rule_format, where L = example_lib
        and ticket = "''4b1d''" and now = 110
        and hs = "[(''x-original-uri'', ''/devtools/page/1?ticket=4b1d''), (''authorization'', ''Bearer eyJ.e30.c2ln'')]"]
    by (simp add: headers_get_default_def headers_get_def lower uri_ticket valid)
  have b: "authenticate_request
      (example_lib\<lparr>jwt_decode := (\<lambda>token key algorithms. Decoded [])\<rparr>) example_config
      (snd (create_ticket example_config ''4b1d'' 100 empty_service)) 130
      [(''x-original-uri'', ''/devtools/page/1?ticket=4b1d''), (''authorization'', ''Bearer eyJ.e30.c2ln'')]
     = (Inl (HTTPException 401 ''Invalid or expired ticket.''),
        snd (create_ticket example_config ''4b1d'' 100 empty_service))"
    using authenticate_request_cases [THEN conjunct2, THEN conjunct1, rule_format, where L = example_lib
        and ticket = "''4b1d''" and now = 130
        and hs = "[(''x-original-uri'', ''/devtools/page/1?ticket=4b1d''), (''authorization'', ''Bearer eyJ.e30.c2ln'')]"]
    by (simp add: headers_get_default_def headers_get_def lower uri_ticket valid)
  have c: "authenticate_request example_lib example_config empty_service 110 [(''x-original-uri'', ''/json'')]
     = (Inl (HTTPException 401 ''Authorization header is missing''), empty_service)"
    using authenticate_request_cases [THEN conjunct2, THEN conjunct2, rule_format, THEN conjunct1,
        rule_format, where L = example_lib and hs = "[(''x-original-uri'', ''/json'')]"]
    by (simp add: headers_get_default_def headers_get_def lower uri_plain)
  have d: "authenticate_request example_lib example_config empty_service 110
        [(''x-original-uri'', ''/json''), (''authorization'', ''Basic dXNlcjpwdw=='')]
     = (Inl (HTTPException 401 invalid_format_detail), empty_service)"
    using authenticate_request_cases [THEN conjunct2, THEN conjunct2, rule_format, THEN conjunct2,
        THEN conjunct1, rule_format, where L = example_lib and h = "''Basic dXNlcjpwdw==''"
        and hs = "[(''x-original-uri'', ''/json''), (''authorization'', ''Basic dXNlcjpwdw=='')]"]
    by (simp add: headers_get_default_def headers_get_def lower uri_plain split)
  have e: "authenticate_request example_lib example_config empty_service 110
        [(''x-original-uri'', ''/json''), (''authorization'', ''bEARER  eyJ.e30.c2ln'')]
     = validate_jwt example_lib example_config empty_service 110 ''eyJ.e30.c2ln''"
    using authenticate_request_cases [THEN conjunct2, THEN conjunct2, rule_format, THEN conjunct2,
        THEN conjunct2, rule_format, where L = example_lib and h = "''bEARER  eyJ.e30.c2ln''"
        and token_type = "''bEARER''" and token = "''eyJ.e30.c2ln''"
        and hs = "[(''x-original-uri'', ''/json''), (''authorization'', ''bEARER  eyJ.e30.c2ln'')]"]
    by (simp add: headers_get_default_def headers_get_def lower uri_plain split)
  have f: "validate_jwt example_lib example_config empty_service 110 ''eyJ.e30.c2ln''
     = (Inl (HTTPException 401 ''Invalid token: Signature verification failed''), empty_service)"
    by (simp add: validate_jwt_def example_config_def empty_service_def example_lib_def
        cache_hit_def cache_get_def)
  show ?thesis
    using a b c d e f by simp
qed

text \<open>
  A URI that \<open>urlparse\<close> does not take apart: the network location has an opening bracket
  and no closing one.  The \<open>ValueError\<close> is caught nowhere, although the query string
  carries a ticket.
\<close>

lemma unparsable_uri_raises:
  "authenticate_request example_lib example_config
      (snd (create_ticket example_config ''4b1d'' 100 empty_service)) 110
      [(''x-original-uri'', ''//[/p?ticket=4b1d'')]
     = (Inl ValueError, snd (create_ticket example_config ''4b1d'' 100 empty_service))"
proof -
  have "parse_ticket_from_uri example_lib ''//[/p?ticket=4b1d'' = Inl ValueError"
    by (simp add: parse_ticket_from_uri_def urlparse_query_def strip_scheme_def
        c0_control_or_space_def unsafe_url_byte_def netloc_delim_def netloc_ok_def)
  moreover have "py_lower ''x-original-uri'' = ''x-original-uri''"
    by (simp add: py_lower_def py_lower_char_def)
  ultimately show ?thesis
    by (simp add: authenticate_request_def headers_get_default_def headers_get_def)
qed

text \<open>
  C1.  The claim asks that a request whose query string contains a ticket parameter is
  decided by the ticket check alone, and so does the description of
  \<open>authenticate_request\<close> in the code.  The code does not do that for a ticket parameter
  with an empty value: the query string \<open>ticket=\<close> has one occurrence of the ticket
  parameter, the empty ticket is not in the store, yet the request, which also carries a
  bearer token that the verifier accepts, is handed to \<open>_validate_jwt\<close> and accepted.
\<close>

theorem blank_ticket_falls_back_to_jwt:
  "urlparse_query example_lib ''/devtools/page/1?ticket='' = Inr ''ticket=''
   \<and> ticket_occurrences example_lib ''ticket='' = [[]]
   \<and> validate_ticket empty_service 110 [] = False
   \<and> fst (authenticate_request
        (example_lib\<lparr>jwt_decode := (\<lambda>token key algorithms. Decoded [(''sub'', JStr ''operator'')])\<rparr>)
        example_config empty_service 110
        [(''x-original-uri'', ''/devtools/page/1?ticket=''), (''authorization'', ''Bearer eyJ.e30.c2ln'')])
     = Inr [(''status'', ''ok''), (''message'', ''Access granted after validation.'')]"
proof -
  have q: "urlparse_query example_lib ''/devtools/page/1?ticket='' = Inr ''ticket=''"
    by (simp add: urlparse_query_def strip_scheme_def query_of_def c0_control_or_space_def
        unsafe_url_byte_def)
  have occ: "ticket_occurrences example_lib ''ticket='' = [[]]"
    by (simp add: ticket_occurrences_def query_fields_def partition_eq_def unquote_plus_def
        example_lib_def)
  have none: "validate_ticket empty_service 110 [] = False"
    by (simp add: validate_ticket_def empty_service_def cache_get_def)
  have "parse_ticket_from_uri example_lib ''/devtools/page/1?ticket='' = Inr None"
    by (simp add: parse_ticket_from_uri_def q parse_qs_def parse_qsl_def partition_eq_def)
  then have uri: "parse_ticket_from_uri
        (example_lib\<lparr>jwt_decode := (\<lambda>token key algorithms. Decoded [(''sub'', JStr ''operator'')])\<rparr>)
        ''/devtools/page/1?ticket='' = Inr None"
    by (simp add: parse_ticket_from_uri_jwt_decode)
  have lower: "py_lower ''x-original-uri'' = ''x-original-uri''"
      "py_lower ''Authorization'' = ''authorization''" "py_lower ''Bearer'' = ''bearer''"
    by (simp_all add: py_lower_def py_lower_char_def)
  have split: "split_maxsplit1 ''Bearer eyJ.e30.c2ln'' = [''Bearer'', ''eyJ.e30.c2ln'']"
    by (simp add: split_maxsplit1_def py_isspace_def)
  have jwt: "fst (validate_jwt
        (example_lib\<lparr>jwt_decode := (\<lambda>token key algorithms. Decoded [(''sub'', JStr ''operator'')])\<rparr>)
        example_config empty_service 110 ''eyJ.e30.c2ln'')
      = Inr [(''status'', ''ok''), (''message'', ''Access granted after validation.'')]"
    by (simp add: validate_jwt_def example_config_def empty_service_def cache_hit_def cache_get_def)
  have "authenticate_request
        (example_lib\<lparr>jwt_decode := (\<lambda>token key algorithms. Decoded [(''sub'', JStr ''operator'')])\<rparr>)
        example_config empty_service 110
        [(''x-original-uri'', ''/devtools/page/1?ticket=''), (''authorization'', ''Bearer eyJ.e30.c2ln'')]
      = validate_jwt
        (example_lib\<lparr>jwt_decode := (\<lambda>token key algorithms. Decoded [(''sub'', JStr ''operator'')])\<rparr>)
        example_config empty_service 110 ''eyJ.e30.c2ln''"
    by (simp add: authenticate_request_def headers_get_default_def headers_get_def lower uri split)
  then show ?thesis
    using q occ none jwt by simp
qed

lemma validate_jwt_cache_hit:
  assumes "jwt_public_key config = Some key" and "key \<noteq> []"
    and "cache_hit (jwt_cache service) now token"
  shows "validate_jwt L config service now token =
     (Inr [(''status'', ''ok''), (''message'', ''Access granted from cache.'')], service)"
  using assms by (simp add: validate_jwt_def)

lemma validate_jwt_decoded:
  assumes "jwt_public_key config = Some key" and "key \<noteq> []"
    and "\<not> cache_hit (jwt_cache service) now token"
    and "jwt_decode L token key (jwt_algorithms config) = Decoded payload"
  shows "fst (validate_jwt L config service now token) =
           Inr [(''status'', ''ok''), (''message'', ''Access granted after validation.'')]"
    and "snd (validate_jwt L config service now token) =
      (case map_of payload ''exp'' of
         None \<Rightarrow> service\<lparr>jwt_cache :=
                    cache_set (jwt_cache service) now token True (default_cache_ttl config)\<rparr>
       | Some exp_claim \<Rightarrow>
           if truthy exp_claim \<and> isinstance_int exp_claim then
             (if 0 < int_of_json exp_claim - py_int now
              then service\<lparr>jwt_cache :=
                     cache_set (jwt_cache service) now token True (int_of_json exp_claim - py_int now)\<rparr>
              else service)
           else service\<lparr>jwt_cache :=
                  cache_set (jwt_cache service) now token True (default_cache_ttl config)\<rparr>)"
  using assms by (simp_all add: validate_jwt_def Let_def split: option.splits)

lemma cache_hit_cache_set:
  assumes "0 < timeout" and "later < real_of_int (py_int now + timeout)"
  shows "cache_hit (cache_set c now key True timeout) later key"
  using assms by (simp add: cache_hit_def cache_get_cache_set normalize_timeout_def)

text \<open>
  C3.  With a public key configured, a token that the JWT cache holds (unexpired) is
  accepted from the cache, whatever the verifier \<open>verifier\<close> would say about it: the
  result does not depend on \<open>jwt_decode\<close>.  In particular, a token that was accepted
  after validation at time \<open>now\<close>, with an integer expiry claim \<open>e\<close> that leaves a
  positive number of seconds, is accepted from the cache on replay at any time \<open>later\<close>
  before \<open>e\<close>, under any configuration \<open>config'\<close> with any other key \<open>key'\<close> and any
  verifier.
\<close>

theorem cached_token_skips_verification:
  "(jwt_public_key config = Some key \<and> key \<noteq> [] \<and> cache_hit (jwt_cache service) now token \<longrightarrow>
      validate_jwt (L\<lparr>jwt_decode := verifier\<rparr>) config service now token =
        (Inr [(''status'', ''ok''), (''message'', ''Access granted from cache.'')], service))
   \<and> (jwt_public_key config = Some key \<and> key \<noteq> []
        \<and> \<not> cache_hit (jwt_cache service) now token
        \<and> jwt_decode L token key (jwt_algorithms config) = Decoded payload
        \<and> map_of payload ''exp'' = Some (JInt e) \<and> e \<noteq> 0 \<and> 0 < e - py_int now
        \<and> later < real_of_int e
        \<and> jwt_public_key config' = Some key' \<and> key' \<noteq> [] \<longrightarrow>
      fst (validate_jwt L config service now token) =
        Inr [(''status'', ''ok''), (''message'', ''Access granted after validation.'')]
      \<and> validate_jwt (L\<lparr>jwt_decode := verifier\<rparr>) config'
           (snd (validate_jwt L config service now token)) later token =
          (Inr [(''status'', ''ok''), (''message'', ''Access granted from cache.'')],
           snd (validate_jwt L config service now token)))"
proof (intro conjI impI)
  assume "jwt_public_key config = Some key \<and> key \<noteq> [] \<and> cache_hit (jwt_cache service) now token"
  then show "validate_jwt (L\<lparr>jwt_decode := verifier\<rparr>) config service now token =
        (Inr [(''status'', ''ok''), (''message'', ''Access granted from cache.'')], service)"
    by (simp add: validate_jwt_cache_hit)
next
  assume h: "jwt_public_key config = Some key \<and> key \<noteq> []
        \<and> \<not> cache_hit (jwt_cache service) now token
        \<and> jwt_decode L token key (jwt_algorithms config) = Decoded payload
        \<and> map_of payload ''exp'' = Some (JInt e) \<and> e \<noteq> 0 \<and> 0 < e - py_int now
        \<and> later < real_of_int e
        \<and> jwt_public_key config' = Some key' \<and> key' \<noteq> []"
  then show "fst (validate_jwt L config service now token) =
        Inr [(''status'', ''ok''), (''message'', ''Access granted after validation.'')]"
    by (simp add: validate_jwt_decoded(1))
  from h have stored: "snd (validate_jwt L config service now token) =
      service\<lparr>jwt_cache := cache_set (jwt_cache service) now token True (e - py_int now)\<rparr>"
    by (simp add: validate_jwt_decoded(2) [where key = key and payload = payload])
  from h have "cache_hit (jwt_cache (snd (validate_jwt L config service now token))) later token"
    by (simp add: stored cache_hit_cache_set)
  with h show "validate_jwt (L\<lparr>jwt_decode := verifier\<rparr>) config'
           (snd (validate_jwt L config service now token)) later token =
          (Inr [(''status'', ''ok''), (''message'', ''Access granted from cache.'')],
           snd (validate_jwt L config service now token))"
    by (simp add: validate_jwt_cache_hit [where key = key'])
qed

text \<open>
  C4 (as amended).  For a token that is not in the cache and that the verifier accepts
  with payload \<open>payload\<close>, the service after \<open>_validate_jwt\<close> is:
  \<^item> with the token stored for the remaining seconds, when the expiry claim is a
    non-zero integer and the remaining seconds (the claim minus the whole seconds of the
    clock) are positive;
  \<^item> unchanged (the token is not stored), when the expiry claim is a non-zero integer
    and the remaining seconds are zero or negative;
  \<^item> with the token stored for the default cache TTL, when the payload has no expiry
    claim.
\<close>

theorem jwt_cache_ttl_after_validation:
  assumes "jwt_public_key config = Some key" and "key \<noteq> []"
    and "\<not> cache_hit (jwt_cache service) now token"
    and "jwt_decode L token key (jwt_algorithms config) = Decoded payload"
  shows "(\<forall>e. map_of payload ''exp'' = Some (JInt e) \<and> e \<noteq> 0 \<and> 0 < e - py_int now \<longrightarrow>
            snd (validate_jwt L config service now token) =
              service\<lparr>jwt_cache :=
                cache_set (jwt_cache service) now token True (e - py_int now)\<rparr>)
       \<and> (\<forall>e. map_of payload ''exp'' = Some (JInt e) \<and> e \<noteq> 0 \<and> e - py_int now \<le> 0 \<longrightarrow>
            snd (validate_jwt L config service now token) = service)
       \<and> (map_of payload ''exp'' = None \<longrightarrow>
            snd (validate_jwt L config service now token) =
              service\<lparr>jwt_cache :=
                cache_set (jwt_cache service) now token True (default_cache_ttl config)\<rparr>)"
  using validate_jwt_decoded(2) [OF assms] by auto

text \<open>
  At clock 1000.25: a token with expiry claim 1600 is stored for 600 seconds, until 1600;
  a token without an expiry claim for the default 1800 seconds, until 2800; and a token
  with expiry claim 1000 is not stored.
\<close>

theorem jwt_cache_ttl_after_validation_witness:
  "jwt_cache (snd (validate_jwt
        (example_lib\<lparr>jwt_decode := (\<lambda>token key algorithms. Decoded [(''exp'', JInt 1600)])\<rparr>)
        example_config empty_service (4001 / 4) ''eyJ.e30.c2ln''))
     = [(''eyJ.e30.c2ln'', 1600, True)]
   \<and> jwt_cache (snd (validate_jwt
        (example_lib\<lparr>jwt_decode := (\<lambda>token key algorithms. Decoded [(''sub'', JStr ''op'')])\<rparr>)
        example_config empty_service (4001 / 4) ''eyJ.e30.c2ln''))
     = [(''eyJ.e30.c2ln'', 2800, True)]
   \<and> jwt_cache (snd (validate_jwt
        (example_lib\<lparr>jwt_decode := (\<lambda>token key algorithms. Decoded [(''exp'', JInt 1000)])\<rparr>)
        example_config empty_service (4001 / 4) ''eyJ.e30.c2ln''))
     = []"
proof -
  have key: "jwt_public_key example_config = Some ''-----BEGIN PUBLIC KEY-----''"
    and nonempty: "''-----BEGIN PUBLIC KEY-----'' \<noteq> []"
    and miss: "\<not> cache_hit (jwt_cache empty_service) (4001 / 4) ''eyJ.e30.c2ln''"
    by (simp_all add: example_config_def empty_service_def cache_hit_def cache_get_def)
  have clock: "py_int (4001 / 4) = 1000"
    by (simp add: py_int_def)
  have d1: "jwt_decode (example_lib\<lparr>jwt_decode := (\<lambda>token key algorithms. Decoded [(''exp'', JInt 1600)])\<rparr>)
      ''eyJ.e30.c2ln'' ''-----BEGIN PUBLIC KEY-----'' (jwt_algorithms example_config)
      = Decoded [(''exp'', JInt 1600)]"
    by simp
  have d2: "jwt_decode (example_lib\<lparr>jwt_decode := (\<lambda>token key algorithms. Decoded [(''sub'', JStr ''op'')])\<rparr>)
      ''eyJ.e30.c2ln'' ''-----BEGIN PUBLIC KEY-----'' (jwt_algorithms example_config)
      = Decoded [(''sub'', JStr ''op'')]"
    by simp
  have d3: "jwt_decode (example_lib\<lparr>jwt_decode := (\<lambda>token key algorithms. Decoded [(''exp'', JInt 1000)])\<rparr>)
      ''eyJ.e30.c2ln'' ''-----BEGIN PUBLIC KEY-----'' (jwt_algorithms example_config)
      = Decoded [(''exp'', JInt 1000)]"
    by simp
  have t1: "snd (validate_jwt
        (example_lib\<lparr>jwt_decode := (\<lambda>token key algorithms. Decoded [(''exp'', JInt 1600)])\<rparr>)
        example_config empty_service (4001 / 4) ''eyJ.e30.c2ln'')
      = empty_service\<lparr>jwt_cache :=
          cache_set (jwt_cache empty_service) (4001 / 4) ''eyJ.e30.c2ln'' True 600\<rparr>"
    using jwt_cache_ttl_after_validation [OF key nonempty miss d1]
    by (simp add: clock)
  have t2: "snd (validate_jwt
        (example_lib\<lparr>jwt_decode := (\<lambda>token key algorithms. Decoded [(''sub'', JStr ''op'')])\<rparr>)
        example_config empty_service (4001 / 4) ''eyJ.e30.c2ln'')
      = empty_service\<lparr>jwt_cache :=
          cache_set (jwt_cache empty_service) (4001 / 4) ''eyJ.e30.c2ln'' True 1800\<rparr>"
    using jwt_cache_ttl_after_validation [OF key nonempty miss d2]
    by (simp add: example_config_def)
  have t3: "snd (validate_jwt
        (example_lib\<lparr>jwt_decode := (\<lambda>token key algorithms. Decoded [(''exp'', JInt 1000)])\<rparr>)
        example_config empty_service (4001 / 4) ''eyJ.e30.c2ln'')
      = empty_service"
    using jwt_cache_ttl_after_validation [OF key nonempty miss d3]
    by (simp add: clock)
  have empty: "jwt_cache empty_service = []"
    by (simp add: empty_service_def)
  show ?thesis
    by (simp add: t1 t2 t3 empty cache_set_def prune_def over_threshold_def threshold_def
        normalize_timeout_def clock)
qed

text \<open>
  C4 as stated fails where the expiry claim leaves no positive remainder: the verifier
  (which reads the clock on its own, a moment earlier, within second 999) accepts a token
  with expiry claim 1000, the handler then reads the clock in second 1000, the remainder
  is 0, and the token is not stored at all; the claim has it stored with the default TTL
  of 1800.
\<close>

theorem jwt_not_cached_counterexample:
  "fst (validate_jwt
        (example_lib\<lparr>jwt_decode := (\<lambda>token key algorithms. Decoded [(''exp'', JInt 1000)])\<rparr>)
        example_config empty_service 1000 ''eyJ.e30.c2ln'')
     = Inr [(''status'', ''ok''), (''message'', ''Access granted after validation.'')]
   \<and> default_cache_ttl example_config = 1800
   \<and> jwt_cache (snd (validate_jwt
        (example_lib\<lparr>jwt_decode := (\<lambda>token key algorithms. Decoded [(''exp'', JInt 1000)])\<rparr>)
        example_config empty_service 1000 ''eyJ.e30.c2ln'')) = []"
  by (simp add: validate_jwt_def example_config_def empty_service_def cache_hit_def cache_get_def
      py_int_def)

text \<open>
  A token cached until 1600 is accepted at 1300 by a service whose verifier rejects every
  token; and a token accepted at 1000 with expiry claim 1600 is accepted again at 1300
  after the key has been replaced and with a verifier that rejects every token.
\<close>

theorem cached_token_skips_verification_witness:
  "validate_jwt
      (example_lib\<lparr>jwt_decode := (\<lambda>token key algorithms. PyJWTError ''Signature verification failed'')\<rparr>)
      example_config
      \<lparr>jwt_cache = [(''eyJ.e30.c2ln'', 1600, True)], ticket_cache = []\<rparr>
      1300 ''eyJ.e30.c2ln''
     = (Inr [(''status'', ''ok''), (''message'', ''Access granted from cache.'')],
        \<lparr>jwt_cache = [(''eyJ.e30.c2ln'', 1600, True)], ticket_cache = []\<rparr>)
   \<and> fst (validate_jwt
        (example_lib\<lparr>jwt_decode := (\<lambda>token key algorithms. Decoded [(''exp'', JInt 1600)])\<rparr>)
        example_config empty_service 1000 ''eyJ.e30.c2ln'')
     = Inr [(''status'', ''ok''), (''message'', ''Access granted after validation.'')]
   \<and> fst (validate_jwt
        (example_lib\<lparr>jwt_decode := (\<lambda>token key algorithms. PyJWTError ''Signature verification failed'')\<rparr>)
        (example_config\<lparr>jwt_public_key := Some ''-----BEGIN OTHER KEY-----''\<rparr>)
        (snd (validate_jwt
           (example_lib\<lparr>jwt_decode := (\<lambda>token key algorithms. Decoded [(''exp'', JInt 1600)])\<rparr>)
           example_config empty_service 1000 ''eyJ.e30.c2ln''))
        1300 ''eyJ.e30.c2ln'')
     = Inr [(''status'', ''ok''), (''message'', ''Access granted from cache.'')]"
proof -
  have hit: "jwt_public_key example_config = Some ''-----BEGIN PUBLIC KEY-----''
      \<and> ''-----BEGIN PUBLIC KEY-----'' \<noteq> []
      \<and> cache_hit (jwt_cache \<lparr>jwt_cache = [(''eyJ.e30.c2ln'', 1600, True)], ticket_cache = []\<rparr>)
            1300 ''eyJ.e30.c2ln''"
    by (simp add: example_config_def cache_hit_def cache_get_def)
  have first: "validate_jwt
      (example_lib\<lparr>jwt_decode := (\<lambda>token key algorithms. PyJWTError ''Signature verification failed'')\<rparr>)
      example_config
      \<lparr>jwt_cache = [(''eyJ.e30.c2ln'', 1600, True)], ticket_cache = []\<rparr>
      1300 ''eyJ.e30.c2ln''
     = (Inr [(''status'', ''ok''), (''message'', ''Access granted from cache.'')],
        \<lparr>jwt_cache = [(''eyJ.e30.c2ln'', 1600, True)], ticket_cache = []\<rparr>)"
    using cached_token_skips_verification [THEN conjunct1, rule_format, OF hit] .
  have replay: "jwt_public_key example_config = Some ''-----BEGIN PUBLIC KEY-----''
      \<and> ''-----BEGIN PUBLIC KEY-----'' \<noteq> []
      \<and> \<not> cache_hit (jwt_cache empty_service) 1000 ''eyJ.e30.c2ln''
      \<and> jwt_decode (example_lib\<lparr>jwt_decode := (\<lambda>token key algorithms. Decoded [(''exp'', JInt 1600)])\<rparr>)
           ''eyJ.e30.c2ln'' ''-----BEGIN PUBLIC KEY-----'' (jwt_algorithms example_config)
         = Decoded [(''exp'', JInt 1600)]
      \<and> map_of [(''exp'', JInt 1600)] ''exp'' = Some (JInt 1600) \<and> (1600::int) \<noteq> 0
      \<and> 0 < (1600::int) - py_int 1000
      \<and> (1300::real) < real_of_int 1600
      \<and> jwt_public_key (example_config\<lparr>jwt_public_key := Some ''-----BEGIN OTHER KEY-----''\<rparr>)
           = Some ''-----BEGIN OTHER KEY-----''
      \<and> ''-----BEGIN OTHER KEY-----'' \<noteq> []"
    by (simp add: example_config_def empty_service_def cache_hit_def cache_get_def py_int_def)
  have second: "fst (validate_jwt
        (example_lib\<lparr>jwt_decode := (\<lambda>token key algorithms. Decoded [(''exp'', JInt 1600)])\<rparr>)
        example_config empty_service 1000 ''eyJ.e30.c2ln'')
     = Inr [(''status'', ''ok''), (''message'', ''Access granted after validation.'')]
   \<and> validate_jwt
        (example_lib\<lparr>jwt_decode := (\<lambda>token key algorithms. Decoded [(''exp'', JInt 1600)]),
                     jwt_decode := (\<lambda>token key algorithms. PyJWTError ''Signature verification failed'')\<rparr>)
        (example_config\<lparr>jwt_public_key := Some ''-----BEGIN OTHER KEY-----''\<rparr>)
        (snd (validate_jwt
           (example_lib\<lparr>jwt_decode := (\<lambda>token key algorithms. Decoded [(''exp'', JInt 1600)])\<rparr>)
           example_config empty_service 1000 ''eyJ.e30.c2ln''))
        1300 ''eyJ.e30.c2ln''
     = (Inr [(''status'', ''ok''), (''message'', ''Access granted from cache.'')],
        snd (validate_jwt
           (example_lib\<lparr>jwt_decode := (\<lambda>token key algorithms. Decoded [(''exp'', JInt 1600)])\<rparr>)
           example_config empty_service 1000 ''eyJ.e30.c2ln''))"
    using cached_token_skips_verification [THEN conjunct2, rule_format, OF replay] .
  show ?thesis
    using first second by simp
qed

section \<open>Properties of the discovery proxy\<close>

lemma ws_url_match_not_started:
  "\<not> prefix (dquote # ''ws'') s \<Longrightarrow> ws_url_match s = None"
  by (simp add: ws_url_match_def)

lemma rewrite_no_match:
  "ws_url_match (c # cs) = None \<Longrightarrow>
   rewrite_websocket_urls (c # cs) proxy_host pfx ws_protocol
     = c # rewrite_websocket_urls cs proxy_host pfx ws_protocol"
  by simp

lemma prefix_across_quote:
  assumes "\<not> prefix (dquote # ''ws'') (c # cs)"
  shows "\<not> prefix (dquote # ''ws'') ((c # cs) @ dquote # r)"
proof (cases cs)
  case Nil
  then show ?thesis by (simp add: dquote_def)
next
  case (Cons c2 cs2)
  show ?thesis
  proof (cases cs2)
    case Nil
    then show ?thesis using Cons by (simp add: dquote_def)
  next
    case (Cons c3 cs3)
    then show ?thesis using assms \<open>cs = c2 # cs2\<close> by simp
  qed
qed

lemma rewrite_before_first_url:
  assumes "\<not> py_in (dquote # ''ws'') pre"
  shows "rewrite_websocket_urls (pre @ dquote # r) proxy_host pfx ws_protocol
     = pre @ rewrite_websocket_urls (dquote # r) proxy_host pfx ws_protocol"
  using assms
proof (induction pre)
  case Nil
  then show ?case by simp
next
  case (Cons c cs)
  then have "\<not> prefix (dquote # ''ws'') (c # cs)" and rest: "\<not> py_in (dquote # ''ws'') cs"
    by simp_all
  then have "ws_url_match ((c # cs) @ dquote # r) = None"
    by (intro ws_url_match_not_started prefix_across_quote)
  then have "rewrite_websocket_urls ((c # cs) @ dquote # r) proxy_host pfx ws_protocol
      = c # rewrite_websocket_urls (cs @ dquote # r) proxy_host pfx ws_protocol"
    using rewrite_no_match [of c "cs @ dquote # r"] by simp
  then show ?case
    using Cons.IH [OF rest] by simp
qed

lemma takeWhile_until:
  "a \<notin> set xs \<Longrightarrow> takeWhile (\<lambda>c. c \<noteq> a) (xs @ a # ys) = xs"
  by (induction xs) auto

lemma dropWhile_until:
  "a \<notin> set xs \<Longrightarrow> dropWhile (\<lambda>c. c \<noteq> a) (xs @ a # ys) = a # ys"
  by (induction xs) auto

lemma ws_url_match_url:
  assumes "sfx = [] \<or> sfx = ''s''" and "host \<noteq> []" and "CHR ''/'' \<notin> set host"
    and "dquote \<notin> set path_tail"
  shows "ws_url_match (dquote # ''ws'' @ sfx @ ''://'' @ host @ ''/devtools/'' @ path_tail @ dquote # post)
     = Some (''/devtools/'' @ path_tail, post)"
proof -
  have tw: "takeWhile (\<lambda>c. c \<noteq> CHR ''/'') (host @ ''/devtools/'' @ path_tail @ dquote # post) = host"
    using takeWhile_until [OF assms(3)] by simp
  have dw: "dropWhile (\<lambda>c. c \<noteq> CHR ''/'') (host @ ''/devtools/'' @ path_tail @ dquote # post)
      = ''/devtools/'' @ path_tail @ dquote # post"
    using dropWhile_until [OF assms(3)] by simp
  have tw2: "takeWhile (\<lambda>c. c \<noteq> dquote) (path_tail @ dquote # post) = path_tail"
    using assms(4) by (rule takeWhile_until)
  have dw2: "dropWhile (\<lambda>c. c \<noteq> dquote) (path_tail @ dquote # post) = dquote # post"
    using assms(4) by (rule dropWhile_until)
  from assms(1) show ?thesis
  proof
    assume "sfx = []"
    then show ?thesis
      using assms(2) tw dw tw2 dw2 by (simp add: ws_url_match_def Let_def)
  next
    assume "sfx = ''s''"
    then show ?thesis
      using assms(2) tw dw tw2 dw2 by (simp add: ws_url_match_def Let_def)
  qed
qed

text \<open>
  The pattern matches at the start of a text exactly when the text begins with a quoted
  session URL.
\<close>

lemma ws_url_match_form:
  assumes "ws_url_match s = Some (path_part, rest)"
  obtains sfx host path_tail where "sfx = [] \<or> sfx = ''s''" and "host \<noteq> []"
    and "CHR ''/'' \<notin> set host" and "dquote \<notin> set path_tail"
    and "s = dquote # ''ws'' @ sfx @ ''://'' @ host @ ''/devtools/'' @ path_tail @ dquote # rest"
    and "path_part = ''/devtools/'' @ path_tail"
proof -
  define r0 where "r0 = drop 3 s"
  define sfx where "sfx = (if prefix ''s'' r0 then ''s'' else [])"
  define r1 where "r1 = (if prefix ''s'' r0 then drop 1 r0 else r0)"
  define r2 where "r2 = drop 3 r1"
  define host where "host = takeWhile (\<lambda>c. c \<noteq> CHR ''/'') r2"
  define r3 where "r3 = dropWhile (\<lambda>c. c \<noteq> CHR ''/'') r2"
  define r4 where "r4 = drop 10 r3"
  define path_tail where "path_tail = takeWhile (\<lambda>c. c \<noteq> dquote) r4"
  define r5 where "r5 = dropWhile (\<lambda>c. c \<noteq> dquote) r4"
  have unfolded: "ws_url_match s =
     (if prefix (dquote # ''ws'') s then
        if prefix ''://'' r1 then
          if host \<noteq> [] \<and> prefix ''/devtools/'' r3 then
            if r5 \<noteq> [] then Some (''/devtools/'' @ path_tail, tl r5) else None
          else None
        else None
      else None)"
    unfolding ws_url_match_def Let_def r0_def r1_def r2_def host_def r3_def r4_def
      path_tail_def r5_def ..
  from assms have started: "prefix (dquote # ''ws'') s" and colon: "prefix ''://'' r1"
    and host: "host \<noteq> []" and devtools: "prefix ''/devtools/'' r3" and closed: "r5 \<noteq> []"
    and part: "path_part = ''/devtools/'' @ path_tail" and rest: "rest = tl r5"
    unfolding unfolded by (simp_all split: if_splits)
  have s0: "s = dquote # ''ws'' @ r0"
    using started by (auto simp: prefix_def r0_def)
  have s1: "r0 = sfx @ r1"
    by (auto simp: sfx_def r1_def prefix_def)
  have s2: "r1 = ''://'' @ r2"
    using colon by (auto simp: prefix_def r2_def)
  have s3: "r2 = host @ r3"
    by (simp add: host_def r3_def)
  have s4: "r3 = ''/devtools/'' @ r4"
    using devtools by (auto simp: prefix_def r4_def)
  have s5: "r4 = path_tail @ r5"
    by (simp add: path_tail_def r5_def)
  have "hd r5 = dquote"
    using closed hd_dropWhile [of "\<lambda>c. c \<noteq> dquote" r4] by (simp add: r5_def)
  then have s6: "r5 = dquote # rest"
    using closed rest by (cases r5) simp_all
  have no_slash: "CHR ''/'' \<notin> set host"
    unfolding host_def by (auto dest: set_takeWhileD)
  have no_quote: "dquote \<notin> set path_tail"
    unfolding path_tail_def by (auto dest: set_takeWhileD)
  have sfx: "sfx = [] \<or> sfx = ''s''"
    by (simp add: sfx_def)
  have form: "s = dquote # ''ws'' @ sfx @ ''://'' @ host @ ''/devtools/'' @ path_tail @ dquote # rest"
    by (subst s0, subst s1, subst s2, subst s3, subst s4, subst s5, subst s6) simp
  show thesis
    by (rule that [OF sfx host no_slash no_quote form part])
qed

lemma session_url_at_iff: "session_url_at s = (ws_url_match s \<noteq> None)"
proof
  assume "session_url_at s"
  then obtain sfx host path_tail rest where "sfx = [] \<or> sfx = ''s''" and "host \<noteq> []"
    and "CHR ''/'' \<notin> set host" and "dquote \<notin> set path_tail"
    and "s = dquote # ''ws'' @ sfx @ ''://'' @ host @ ''/devtools/'' @ path_tail @ dquote # rest"
    unfolding session_url_at_def by blast
  then show "ws_url_match s \<noteq> None"
    using ws_url_match_url [of sfx host path_tail rest] by simp
next
  assume "ws_url_match s \<noteq> None"
  then obtain path_part rest where "ws_url_match s = Some (path_part, rest)"
    by auto
  then show "session_url_at s"
    unfolding session_url_at_def by (rule ws_url_match_form) blast
qed

lemma ws_url_match_None_iff: "(ws_url_match s = None) = (\<not> session_url_at s)"
  unfolding session_url_at_iff by (cases "ws_url_match s") simp_all

lemma session_url_at_started: "session_url_at s \<Longrightarrow> prefix (dquote # ''ws'') s"
  by (auto simp: session_url_at_def)

lemma rewrite_first_url:
  assumes "\<not> py_in (dquote # ''ws'') pre"
    and "sfx = [] \<or> sfx = ''s''" and "host \<noteq> []" and "CHR ''/'' \<notin> set host"
    and "dquote \<notin> set path_tail"
  shows "rewrite_websocket_urls
       (pre @ dquote # ''ws'' @ sfx @ ''://'' @ host @ ''/devtools/'' @ path_tail @ dquote # post)
       proxy_host pfx ws_protocol
     = pre @ dquote # ws_protocol @ ''://'' @ proxy_host @ pfx @ ''/devtools/'' @ path_tail
         @ dquote # rewrite_websocket_urls post proxy_host pfx ws_protocol"
proof -
  have "rewrite_websocket_urls
       (dquote # ''ws'' @ sfx @ ''://'' @ host @ ''/devtools/'' @ path_tail @ dquote # post)
       proxy_host pfx ws_protocol
     = dquote # ws_protocol @ ''://'' @ proxy_host @ pfx @ ''/devtools/'' @ path_tail
         @ dquote # rewrite_websocket_urls post proxy_host pfx ws_protocol"
    using ws_url_match_url [OF assms(2-5), of post] by simp
  then show ?thesis
    using rewrite_before_first_url [OF assms(1)] by simp
qed


text \<open>
  A text within which no session URL begins is kept as it is, and a text within which no
  \<open>"ws\<close> begins is such a text; a quoted WebSocket URL whose path does not start with
  \<open>/devtools/\<close> does not match the pattern; and so the rewriting of a well-formed
  sequence of pieces goes piece by piece.
\<close>

lemma body_text_Cons: "body_text (p # ps) = piece_text p @ body_text ps"
  by (simp add: body_text_def)

lemma prefix3_take2:
  "prefix [a, b, c] ((x # xs) @ r) = prefix [a, b, c] ((x # xs) @ take 2 r)"
proof (cases xs)
  case Nil
  show ?thesis
  proof (cases r)
    case Nil
    then show ?thesis using \<open>xs = []\<close> by simp
  next
    case (Cons r1 rs)
    then show ?thesis using \<open>xs = []\<close> by (cases rs) simp_all
  qed
next
  case (Cons y ys)
  show ?thesis
  proof (cases ys)
    case Nil
    then show ?thesis using Cons by (cases r) simp_all
  next
    case (Cons z zs)
    then show ?thesis using \<open>xs = y # ys\<close> by simp
  qed
qed

lemma rewrite_plain_text:
  assumes "no_session_url_within t r"
  shows "rewrite_websocket_urls (t @ r) proxy_host pfx ws_protocol
     = t @ rewrite_websocket_urls r proxy_host pfx ws_protocol"
  using assms
proof (induction t)
  case Nil
  then show ?case by simp
next
  case (Cons c cs)
  then have "ws_url_match ((c # cs) @ r) = None" and rest: "no_session_url_within cs r"
    by (simp_all add: ws_url_match_None_iff)
  then have "rewrite_websocket_urls ((c # cs) @ r) proxy_host pfx ws_protocol
      = c # rewrite_websocket_urls (cs @ r) proxy_host pfx ws_protocol"
    using rewrite_no_match [of c "cs @ r"] by simp
  then show ?case
    using Cons.IH [OF rest] by simp
qed

lemma no_session_url_within_plain:
  assumes "\<not> py_in (dquote # ''ws'') (t @ take 2 r)"
  shows "no_session_url_within t r"
  using assms
proof (induction t)
  case Nil
  then show ?case by simp
next
  case (Cons c cs)
  then have np: "\<not> prefix [dquote, CHR ''w'', CHR ''s''] ((c # cs) @ take 2 r)"
    and rest: "\<not> py_in (dquote # ''ws'') (cs @ take 2 r)"
    by simp_all
  from np have "\<not> prefix (dquote # ''ws'') ((c # cs) @ r)"
    unfolding prefix3_take2 [of dquote "CHR ''w''" "CHR ''s''" c cs r] .
  then have "\<not> session_url_at ((c # cs) @ r)"
    using session_url_at_started by blast
  then show ?case
    using Cons.IH [OF rest] by simp
qed

lemma py_in_first: "py_in (a # p) s \<Longrightarrow> a \<in> set s"
  by (induction s) auto

lemma not_devtools_across_quote:
  assumes "dquote \<notin> set path" and "\<not> prefix ''devtools/'' path"
  shows "\<not> prefix ''devtools/'' (path @ dquote # r)"
proof
  assume "prefix ''devtools/'' (path @ dquote # r)"
  then consider "prefix ''devtools/'' path"
    | us where "''devtools/'' = path @ us" and "prefix us (dquote # r)"
    unfolding prefix_append by blast
  then show False
  proof cases
    case 1
    with assms(2) show False by simp
  next
    case 2
    show False
    proof (cases us)
      case Nil
      with 2(1) have "path = ''devtools/''" by simp
      with assms(2) show False by simp
    next
      case (Cons u us')
      with 2(2) have "u = dquote" by simp
      then have "dquote \<in> set (path @ us)" using Cons by simp
      then have "dquote \<in> set ''devtools/''" by (simp only: 2(1))
      then show False by (simp add: dquote_def)
    qed
  qed
qed

lemma ws_url_match_other_url:
  assumes "sfx = [] \<or> sfx = ''s''" and "CHR ''/'' \<notin> set host"
    and "dquote \<notin> set path" and "\<not> prefix ''devtools/'' path"
  shows "ws_url_match (dquote # ''ws'' @ sfx @ ''://'' @ host @ ''/'' @ path @ dquote # r) = None"
proof -
  have tw: "takeWhile (\<lambda>c. c \<noteq> CHR ''/'') (host @ ''/'' @ path @ dquote # r) = host"
    using takeWhile_until [OF assms(2)] by simp
  have dw: "dropWhile (\<lambda>c. c \<noteq> CHR ''/'') (host @ ''/'' @ path @ dquote # r)
      = ''/'' @ path @ dquote # r"
    using dropWhile_until [OF assms(2)] by simp
  have nd: "\<not> prefix ''devtools/'' (path @ dquote # r)"
    using assms(3,4) by (rule not_devtools_across_quote)
  from assms(1) show ?thesis
  proof
    assume "sfx = []"
    then show ?thesis
      using tw dw nd by (simp add: ws_url_match_def Let_def)
  next
    assume "sfx = ''s''"
    then show ?thesis
      using tw dw nd by (simp add: ws_url_match_def Let_def)
  qed
qed

lemma rewrite_other_url:
  assumes "sfx = [] \<or> sfx = ''s''" and "CHR ''/'' \<notin> set host" and "dquote \<notin> set host"
    and "dquote \<notin> set path" and "\<not> prefix ''devtools/'' path" and "\<not> prefix ''ws'' r"
  shows "rewrite_websocket_urls
       (dquote # ''ws'' @ sfx @ ''://'' @ host @ ''/'' @ path @ dquote # r)
       proxy_host pfx ws_protocol
     = dquote # ''ws'' @ sfx @ ''://'' @ host @ ''/'' @ path
         @ dquote # rewrite_websocket_urls r proxy_host pfx ws_protocol"
proof -
  have nq: "dquote \<notin> set (''ws'' @ sfx @ ''://'' @ host @ ''/'' @ path)"
    using assms(1,3,4) by (auto simp: dquote_def)
  have plain: "\<not> py_in (dquote # ''ws'') (''ws'' @ sfx @ ''://'' @ host @ ''/'' @ path)"
    using py_in_first nq by blast
  have first: "rewrite_websocket_urls
       (dquote # (''ws'' @ sfx @ ''://'' @ host @ ''/'' @ path) @ dquote # r)
       proxy_host pfx ws_protocol
     = dquote # rewrite_websocket_urls
         ((''ws'' @ sfx @ ''://'' @ host @ ''/'' @ path) @ dquote # r) proxy_host pfx ws_protocol"
    using ws_url_match_other_url [OF assms(1,2,4,5), of r] by simp
  have mid: "rewrite_websocket_urls
         ((''ws'' @ sfx @ ''://'' @ host @ ''/'' @ path) @ dquote # r) proxy_host pfx ws_protocol
     = (''ws'' @ sfx @ ''://'' @ host @ ''/'' @ path)
         @ rewrite_websocket_urls (dquote # r) proxy_host pfx ws_protocol"
    using plain by (rule rewrite_before_first_url)
  have "ws_url_match (dquote # r) = None"
    using assms(6) by (simp add: ws_url_match_def)
  then have last: "rewrite_websocket_urls (dquote # r) proxy_host pfx ws_protocol
     = dquote # rewrite_websocket_urls r proxy_host pfx ws_protocol"
    by simp
  show ?thesis
    using first mid last by simp
qed

lemma rewrite_well_formed:
  assumes "well_formed ps"
  shows "rewrite_websocket_urls (body_text ps) proxy_host pfx ws_protocol
     = concat (map (rewritten_piece proxy_host pfx ws_protocol) ps)"
  using assms
proof (induction ps rule: well_formed.induct)
  case 1
  show ?case by (simp add: body_text_def)
next
  case (2 t ps)
  then have plain: "no_session_url_within t (body_text ps)"
    and rest: "rewrite_websocket_urls (body_text ps) proxy_host pfx ws_protocol
      = concat (map (rewritten_piece proxy_host pfx ws_protocol) ps)"
    by simp_all
  show ?case
    using rewrite_plain_text [OF plain, of proxy_host pfx ws_protocol] rest
    by (simp add: body_text_Cons)
next
  case (3 sfx host path_tail ps)
  then have url: "sfx = [] \<or> sfx = ''s''" "host \<noteq> []" "CHR ''/'' \<notin> set host"
      "dquote \<notin> set path_tail"
    and rest: "rewrite_websocket_urls (body_text ps) proxy_host pfx ws_protocol
      = concat (map (rewritten_piece proxy_host pfx ws_protocol) ps)"
    by simp_all
  show ?case
    using ws_url_match_url [OF url, of "body_text ps"] rest
    by (simp add: body_text_Cons)
next
  case (4 sfx host path ps)
  then have url: "sfx = [] \<or> sfx = ''s''" "CHR ''/'' \<notin> set host" "dquote \<notin> set host"
      "dquote \<notin> set path" "\<not> prefix ''devtools/'' path" "\<not> prefix ''ws'' (body_text ps)"
    and rest: "rewrite_websocket_urls (body_text ps) proxy_host pfx ws_protocol
      = concat (map (rewritten_piece proxy_host pfx ws_protocol) ps)"
    by simp_all
  show ?case
    using rewrite_other_url [OF url, of proxy_host pfx ws_protocol] rest
    by (simp add: body_text_Cons)
qed

text \<open>
  C5 (as amended).  For a configured proxy and an upstream response with status 200 whose
  body is a well-formed sequence of pieces: in the body of the answer every quoted URL
  \<open>"ws://<host>/devtools/<rest>"\<close> or \<open>"wss://<host>/devtools/<rest>"\<close> of the body,
  wherever it stands, is replaced by \<open>"<scheme>://<proxy host><prefix>/devtools/<rest>"\<close>,
  where the scheme is \<open>wss\<close> when the inbound request used \<open>https\<close> and \<open>ws\<close>
  otherwise, the proxy host is the inbound \<open>Host\<close> header (the network location of
  the URL without one), and the prefix is the \<open>X-Forwarded-Prefix\<close> header (empty
  without one); every quoted WebSocket URL whose path does not start with \<open>/devtools/\<close>
  and every plain text is kept as it is.
\<close>

theorem discovery_rewrites_devtools_urls:
  assumes "is_configured config"
    and "upstream (upstream_request config req) = UpstreamResponse 200 hs body"
    and "body = body_text ps" and "well_formed ps"
  shows "fst (handle_http_request config upstream req) =
     Inr \<lparr>status_code = 200,
          content = concat (map
            (rewritten_piece
               (headers_get_default (req_headers req) ''host'' (url_netloc req))
               (headers_get_default (req_headers req) ''x-forwarded-prefix'' [])
               (if url_scheme req = ''https'' then ''wss'' else ''ws'')) ps),
          resp_headers = None,
          media_type = headers_get hs ''content-type''\<rparr>"
proof -
  have "fst (handle_http_request config upstream req) =
     Inr \<lparr>status_code = 200,
          content = rewrite_websocket_urls body
                  (headers_get_default (req_headers req) ''host'' (url_netloc req))
                  (headers_get_default (req_headers req) ''x-forwarded-prefix'' [])
                  (if url_scheme req = ''https'' then ''wss'' else ''ws''),
          resp_headers = None,
          media_type = headers_get hs ''content-type''\<rparr>"
    using assms(1,2) by (simp add: handle_http_request_def Let_def)
  then show ?thesis
    unfolding assms(3) rewrite_well_formed [OF assms(4)] .
qed

lemma py_lower_examples:
  "py_lower ''host'' = ''host''" "py_lower ''x-forwarded-prefix'' = ''x-forwarded-prefix''"
  "py_lower ''content-type'' = ''content-type''" "py_lower ''content-length'' = ''content-length''"
  by (simp_all add: py_lower_def py_lower_char_def)

lemma example_listing_text:
  "body_text example_listing =
     ''[{'' @ dquote # ''id'' @ dquote # '': '' @ dquote # ''A1'' @ dquote # '', ''
       @ dquote # ''webSocketDebuggerUrl'' @ dquote # '': ''
       @ dquote # ''ws://127.0.0.1:9222/devtools/page/A1'' @ dquote # ''}, {''
       @ dquote # ''webSocketDebuggerUrl'' @ dquote # '': ''
       @ dquote # ''wss://10.0.0.5/devtools/page/B2'' @ dquote # '', ''
       @ dquote # ''sessionUrl'' @ dquote # '': ''
       @ dquote # ''ws://internalhost/sess/abc'' @ dquote # ''}]''"
  by (simp add: body_text_def example_listing_def)

lemma example_listing_well_formed: "well_formed example_listing"
  by (simp add: example_listing_def body_text_def no_session_url_within_plain dquote_def
      del: no_session_url_within.simps)

text \<open>
  The listing of two targets, asked for over \<open>https\<close> at \<open>public.example\<close> with prefix
  \<open>/cdp\<close>: both session URLs are rewritten, the one that came with \<open>ws\<close> and the one
  that came with \<open>wss\<close>, and the URL with the path \<open>/sess/abc\<close> is not.
\<close>

theorem discovery_rewrites_devtools_urls_witness:
  "is_configured example_cdp_config
   \<and> well_formed example_listing
   \<and> content (projr (fst (handle_http_request example_cdp_config
       (\<lambda>sent. UpstreamResponse 200 [(''content-type'', ''application/json'')]
          (body_text example_listing))
       example_request)))
     = ''[{'' @ dquote # ''id'' @ dquote # '': '' @ dquote # ''A1'' @ dquote # '', ''
       @ dquote # ''webSocketDebuggerUrl'' @ dquote # '': ''
       @ dquote # ''wss://public.example/cdp/devtools/page/A1'' @ dquote # ''}, {''
       @ dquote # ''webSocketDebuggerUrl'' @ dquote # '': ''
       @ dquote # ''wss://public.example/cdp/devtools/page/B2'' @ dquote # '', ''
       @ dquote # ''sessionUrl'' @ dquote # '': ''
       @ dquote # ''ws://internalhost/sess/abc'' @ dquote # ''}]''"
proof -
  have cfg: "is_configured example_cdp_config"
    by (simp add: is_configured_def example_cdp_config_def)
  have up: "(\<lambda>sent. UpstreamResponse 200 [(''content-type'', ''application/json'')]
          (body_text example_listing))
        (upstream_request example_cdp_config example_request)
      = UpstreamResponse 200 [(''content-type'', ''application/json'')] (body_text example_listing)"
    by simp
  have "fst (handle_http_request example_cdp_config
       (\<lambda>sent. UpstreamResponse 200 [(''content-type'', ''application/json'')]
          (body_text example_listing))
       example_request)
     = Inr \<lparr>status_code = 200,
          content = concat (map (rewritten_piece ''public.example'' ''/cdp'' ''wss'') example_listing),
          resp_headers = None, media_type = Some ''application/json''\<rparr>"
    using discovery_rewrites_devtools_urls [where req = example_request, OF cfg up refl example_listing_well_formed]
    by (simp add: example_request_def headers_get_default_def headers_get_def py_lower_examples)
  then show ?thesis
    using cfg example_listing_well_formed by (simp add: example_listing_def)
qed

text \<open>
  C5 as stated fails on its own example: the pattern asks for a path that starts with
  \<open>/devtools/\<close>, so \<open>"ws://internalhost/sess/abc"\<close> in a 200 response reaches the
  client as it is, although the inbound request used \<open>https\<close> and carried a prefix.
\<close>

theorem discovery_session_url_counterexample:
  "fst (handle_http_request example_cdp_config
       (\<lambda>sent. UpstreamResponse 200 [(''content-type'', ''application/json'')]
          (dquote # ''ws://internalhost/sess/abc'' @ [dquote]))
       example_request)
     = Inr \<lparr>status_code = 200,
          content = dquote # ''ws://internalhost/sess/abc'' @ [dquote],
          resp_headers = None, media_type = Some ''application/json''\<rparr>
   \<and> url_scheme example_request = ''https''
   \<and> headers_get (req_headers example_request) ''x-forwarded-prefix'' = Some ''/cdp''"
  by (simp add: handle_http_request_def is_configured_def example_cdp_config_def
      example_request_def headers_get_default_def headers_get_def py_lower_examples
      ws_url_match_def dquote_def)


text \<open>
  C6.  \<open>handle_http_request\<close> fails with 503 and sends nothing upstream when the
  configuration is not complete; with a complete configuration it fails with 504 when
  the upstream call times out, with 502 when it raises another request error, and with
  500 when it raises anything else.
\<close>

theorem discovery_failure_status:
  "(\<not> is_configured config \<longrightarrow>
      handle_http_request config upstream req =
        (Inl (HTTPException 503 ''CDP proxy is not properly configured''), []))
   \<and> (is_configured config \<and> upstream (upstream_request config req) = TimeoutException \<longrightarrow>
      fst (handle_http_request config upstream req) = Inl (HTTPException 504 ''CDP request timeout''))
   \<and> (is_configured config \<and> upstream (upstream_request config req) = RequestError \<longrightarrow>
      fst (handle_http_request config upstream req) = Inl (HTTPException 502 ''CDP connection failed''))
   \<and> (is_configured config \<and> upstream (upstream_request config req) = OtherException \<longrightarrow>
      fst (handle_http_request config upstream req) = Inl (HTTPException 500 ''Internal server error''))"
  by (simp add: handle_http_request_def Let_def)

text \<open>The four failures at the example request.\<close>

theorem discovery_failure_status_witness:
  "handle_http_request (example_cdp_config\<lparr>cdp_netloc := None\<rparr>) (\<lambda>sent. TimeoutException) example_request
     = (Inl (HTTPException 503 ''CDP proxy is not properly configured''), [])
   \<and> fst (handle_http_request example_cdp_config (\<lambda>sent. TimeoutException) example_request)
     = Inl (HTTPException 504 ''CDP request timeout'')
   \<and> fst (handle_http_request example_cdp_config (\<lambda>sent. RequestError) example_request)
     = Inl (HTTPException 502 ''CDP connection failed'')
   \<and> fst (handle_http_request example_cdp_config (\<lambda>sent. OtherException) example_request)
     = Inl (HTTPException 500 ''Internal server error'')"
proof -
  have cfg: "is_configured example_cdp_config"
    and uncfg: "\<not> is_configured (example_cdp_config\<lparr>cdp_netloc := None\<rparr>)"
    by (simp_all add: is_configured_def example_cdp_config_def)
  show ?thesis
    using discovery_failure_status [of "example_cdp_config\<lparr>cdp_netloc := None\<rparr>"
        "\<lambda>sent. TimeoutException" example_request]
      discovery_failure_status [of example_cdp_config "\<lambda>sent. TimeoutException" example_request]
      discovery_failure_status [of example_cdp_config "\<lambda>sent. RequestError" example_request]
      discovery_failure_status [of example_cdp_config "\<lambda>sent. OtherException" example_request]
    by (simp add: cfg uncfg)
qed

text \<open>
  C8 (as amended).  When the configuration is not complete, all that
  \<open>handle_websocket_request\<close> does is to close the inbound WebSocket with code 1011 and
  the reason ``CDP proxy not configured'': it does not accept the connection first, and
  it does not connect upstream.
\<close>

theorem websocket_unconfigured_closes:
  assumes "\<not> is_configured config"
  shows "handle_websocket_request config session path = [Close 1011 ''CDP proxy not configured'']"
  using assms by (simp add: handle_websocket_request_def)

text \<open>A configuration whose origin is the empty text.\<close>

theorem websocket_unconfigured_closes_witness:
  "\<not> is_configured (example_cdp_config\<lparr>cdp_origin := Some []\<rparr>)
   \<and> handle_websocket_request (example_cdp_config\<lparr>cdp_origin := Some []\<rparr>)
        (\<lambda>url. Relayed True) ''page/7F3A''
     = [Close 1011 ''CDP proxy not configured'']"
proof -
  have uncfg: "\<not> is_configured (example_cdp_config\<lparr>cdp_origin := Some []\<rparr>)"
    by (simp add: is_configured_def example_cdp_config_def)
  show ?thesis
    using websocket_unconfigured_closes [OF uncfg] uncfg by simp
qed

text \<open>
  C8 as stated fails: with neither value configured, the list of actions has no
  \<open>Accept\<close>; the close is the first and only action.
\<close>

theorem websocket_unconfigured_counterexample:
  "\<not> is_configured (example_cdp_config\<lparr>cdp_origin := None, cdp_netloc := None\<rparr>)
   \<and> Accept \<notin> set (handle_websocket_request
        (example_cdp_config\<lparr>cdp_origin := None, cdp_netloc := None\<rparr>)
        (\<lambda>url. Relayed True) ''page/7F3A'')
   \<and> handle_websocket_request
        (example_cdp_config\<lparr>cdp_origin := None, cdp_netloc := None\<rparr>)
        (\<lambda>url. Relayed True) ''page/7F3A''
     = [Close 1011 ''CDP proxy not configured'']"
  by (simp add: handle_websocket_request_def is_configured_def example_cdp_config_def)

text \<open>
  C10.  Whatever the method and the body of the inbound request are, the requests that
  \<open>cdp_http_proxy\<close> sends upstream are: for a complete configuration, one \<open>GET\<close> of the
  configured origin followed by the inbound path, with the outbound headers and no body;
  otherwise none.
\<close>

theorem discovery_upstream_always_get:
  "snd (cdp_http_proxy config upstream (req\<lparr>req_method := inbound_method, req_body := inbound_body\<rparr>))
     = (if is_configured config
        then [\<lparr>out_method = ''GET'',
               out_url = (case cdp_origin config of None \<Rightarrow> ''None'' | Some origin \<Rightarrow> origin) @ url_path req,
               out_headers = upstream_headers config (req_headers req),
               out_body = None\<rparr>]
        else [])"
  by (simp add: cdp_http_proxy_def handle_http_request_def upstream_request_def Let_def)


text \<open>The \<open>POST\<close> of the example, with a body, goes upstream as a \<open>GET\<close> without one.\<close>

theorem discovery_upstream_always_get_witness:
  "req_method example_request = ''POST'' \<and> req_body example_request = ''{}''
   \<and> snd (cdp_http_proxy example_cdp_config (\<lambda>sent. RequestError) example_request)
     = [\<lparr>out_method = ''GET'', out_url = ''http://127.0.0.1:9222/json/version'',
         out_headers = [(''x-forwarded-prefix'', ''/cdp''), (''content-length'', ''2''),
                        (''Host'', ''127.0.0.1:9222'')],
         out_body = None\<rparr>]"
proof -
  have same: "example_request\<lparr>req_method := ''POST'', req_body := ''{}''\<rparr> = example_request"
    by (simp add: example_request_def)
  have cfg: "is_configured example_cdp_config"
    by (simp add: is_configured_def example_cdp_config_def)
  have hdrs: "upstream_headers example_cdp_config (req_headers example_request)
      = [(''x-forwarded-prefix'', ''/cdp''), (''content-length'', ''2''), (''Host'', ''127.0.0.1:9222'')]"
    by (simp add: upstream_headers_def example_request_def example_cdp_config_def py_lower_examples)
  show ?thesis
    using discovery_upstream_always_get [where config = example_cdp_config
        and upstream = "\<lambda>sent. RequestError" and req = example_request
        and inbound_method = "''POST''" and inbound_body = "''{}''"]
    by (simp add: same cfg hdrs) (simp add: example_request_def example_cdp_config_def)
qed

section \<open>Properties of the session relay\<close>

lemma handle_custom_command_cases:
  "handle_custom_command L config data ls =
     (if \<not> py_in (custom_command_domain config) data then Inr (False, [], ls)
      else case parsed_control_method L config data of
        None \<Rightarrow>
          (case json_loads L data of
             LoadsRaised e \<Rightarrow> Inl e
           | _ \<Rightarrow> Inr (False, [], ls))
      | Some (method, msg) \<Rightarrow>
          if method = custom_command_domain config @ ''.setLoggingEnabled'' then
            (case map_of msg ''params'' of
               None \<Rightarrow> Inr (True, [success_response (command_id_of msg)], ls\<lparr>enabled := False\<rparr>)
             | Some (JObj ps) \<Rightarrow>
                 Inr (True, [success_response (command_id_of msg)],
                      ls\<lparr>enabled := truthy (case map_of ps ''enabled'' of None \<Rightarrow> JBool False | Some e \<Rightarrow> e)\<rparr>)
             | Some _ \<Rightarrow> Inr (False, [], ls))
          else Inr (True, [error_response (command_id_of msg) (- 32601) ''Method not found''], ls))"
proof (cases "py_in (custom_command_domain config) data")
  case False
  then show ?thesis by (simp add: handle_custom_command_def)
next
  case True
  show ?thesis
  proof (cases "json_loads L data")
    case JSONDecodeError
    then show ?thesis
      using True by (simp add: handle_custom_command_def parsed_control_method_def)
  next
    case (LoadsRaised e)
    then show ?thesis
      using True by (simp add: handle_custom_command_def parsed_control_method_def)
  next
    case (Loaded v)
    show ?thesis
    proof (cases v)
      case (JObj msg)
      show ?thesis
      proof (cases "map_of msg ''method''")
        case None
        then show ?thesis
          using True Loaded JObj by (simp add: handle_custom_command_def parsed_control_method_def)
      next
        case meth: (Some m)
        show ?thesis
        proof (cases m)
          case (JStr meth_name)
          show ?thesis
          proof (cases "map_of msg ''params''")
            case None
            then show ?thesis
              using True Loaded JObj meth JStr
              by (simp add: handle_custom_command_def parsed_control_method_def command_id_of_def)
          next
            case params: (Some p)
            then show ?thesis
              using True Loaded JObj meth JStr
              by (cases p)
                (simp_all add: handle_custom_command_def parsed_control_method_def command_id_of_def)
          qed
        qed (use True Loaded JObj meth in
              \<open>simp_all add: handle_custom_command_def parsed_control_method_def\<close>)
      qed
    qed (use True Loaded in \<open>simp_all add: handle_custom_command_def parsed_control_method_def\<close>)
  qed
qed

lemma handle_custom_command_shape:
  assumes "\<not> py_in (custom_command_domain config) data \<or> (\<forall>e. json_loads L data \<noteq> LoadsRaised e)"
  shows "(\<exists>reply ls'. handle_custom_command L config data ls = Inr (True, [reply], ls'))
   \<or> handle_custom_command L config data ls = Inr (False, [], ls)"
proof (cases "py_in (custom_command_domain config) data")
  case False
  then show ?thesis by (simp add: handle_custom_command_cases)
next
  case True
  with assms have loads: "\<forall>e. json_loads L data \<noteq> LoadsRaised e"
    by simp
  show ?thesis
  proof (cases "parsed_control_method L config data")
    case None
    then show ?thesis
      using True loads by (simp add: handle_custom_command_cases split: loads_result.splits)
  next
    case (Some mm)
    obtain meth msg where mm: "mm = (meth, msg)" by (cases mm)
    show ?thesis
    proof (cases "map_of msg ''params''")
      case None
      then show ?thesis using True Some mm by (simp add: handle_custom_command_cases)
    next
      case params: (Some p)
      then show ?thesis using True Some mm
        by (cases p) (simp_all add: handle_custom_command_cases)
    qed
  qed
qed

lemma forward_text_frame:
  assumes "data \<noteq> []"
  shows "forward_client_step L config (Receive (Some data) bytes) ls =
      (case handle_custom_command L config data ls of
         Inl e \<Rightarrow> ([], [], ls, False)
       | Inr (handled, replies, ls') \<Rightarrow>
           if handled then (replies, [], ls', True) else (replies, [TextData data], ls', True))"
  using assms by (simp add: forward_client_step_def frame_data_def)

text \<open>
  C7 (as amended).  Of a text frame that is not empty, in one turn of the relay loop:
  \<^item> A frame whose text does not contain the domain name is sent upstream unchanged, and
    so is a frame whose text contains it and that \<open>json.loads\<close> takes apart or refuses
    with \<open>JSONDecodeError\<close>, if it fails the structural check.
  \<^item> A frame whose text contains the domain name and that passes the check with a
    method other than \<open><domain>.setLoggingEnabled\<close> is answered with the error
    \<open>-32601\<close>, ``Method not found'', under its \<open>id\<close>, and is not sent upstream.
  \<^item> A frame whose text contains the domain name and that passes the check with the
    method \<open><domain>.setLoggingEnabled\<close>, with no \<open>params\<close> or with an object as
    \<open>params\<close>, is answered with an empty \<open>result\<close> under its \<open>id\<close>, sets the logging
    flag to the truth value of \<open>params.enabled\<close> (false when absent), and is not sent
    upstream.
  \<^item> A frame whose text contains the domain name and that passes the check with the
    method \<open><domain>.setLoggingEnabled\<close> and with \<open>params\<close> that is not an object
    (reading \<open>params.enabled\<close> raises \<open>AttributeError\<close>, which the handler catches)
    is sent upstream unchanged and is not answered.
  \<^item> Every frame whose text does not contain the domain name, or on which \<open>json.loads\<close>
    raises nothing but \<open>JSONDecodeError\<close>, has exactly one of two outcomes: one reply to
    the client and nothing upstream, or the frame upstream as it is and no reply.
\<close>

theorem text_frame_dispatch:
  assumes "data \<noteq> []"
  shows "(\<not> py_in (custom_command_domain config) data
          \<or> ((\<forall>e. json_loads L data \<noteq> LoadsRaised e) \<and> parsed_control_method L config data = None) \<longrightarrow>
        forward_client_step L config (Receive (Some data) bytes) ls = ([], [TextData data], ls, True))
     \<and> (\<forall>meth msg. py_in (custom_command_domain config) data
          \<and> parsed_control_method L config data = Some (meth, msg)
          \<and> meth \<noteq> custom_command_domain config @ ''.setLoggingEnabled'' \<longrightarrow>
        forward_client_step L config (Receive (Some data) bytes) ls =
          ([error_response (command_id_of msg) (- 32601) ''Method not found''], [], ls, True))
     \<and> (\<forall>msg. py_in (custom_command_domain config) data
          \<and> parsed_control_method L config data
              = Some (custom_command_domain config @ ''.setLoggingEnabled'', msg)
          \<and> map_of msg ''params'' = None \<longrightarrow>
        forward_client_step L config (Receive (Some data) bytes) ls =
          ([success_response (command_id_of msg)], [], ls\<lparr>enabled := False\<rparr>, True))
     \<and> (\<forall>msg ps. py_in (custom_command_domain config) data
          \<and> parsed_control_method L config data
              = Some (custom_command_domain config @ ''.setLoggingEnabled'', msg)
          \<and> map_of msg ''params'' = Some (JObj ps) \<longrightarrow>
        forward_client_step L config (Receive (Some data) bytes) ls =
          ([success_response (command_id_of msg)], [],
           ls\<lparr>enabled := truthy (case map_of ps ''enabled'' of None \<Rightarrow> JBool False | Some e \<Rightarrow> e)\<rparr>,
           True))
     \<and> (\<forall>msg p. py_in (custom_command_domain config) data
          \<and> parsed_control_method L config data
              = Some (custom_command_domain config @ ''.setLoggingEnabled'', msg)
          \<and> map_of msg ''params'' = Some p \<and> (\<forall>ps. p \<noteq> JObj ps) \<longrightarrow>
        forward_client_step L config (Receive (Some data) bytes) ls = ([], [TextData data], ls, True))
     \<and> (\<not> py_in (custom_command_domain config) data \<or> (\<forall>e. json_loads L data \<noteq> LoadsRaised e) \<longrightarrow>
          (\<exists>ls'. (\<exists>reply. forward_client_step L config (Receive (Some data) bytes) ls
                          = ([reply], [], ls', True))
              \<or> forward_client_step L config (Receive (Some data) bytes) ls
                          = ([], [TextData data], ls', True)))"
proof (intro conjI impI allI)
  assume "\<not> py_in (custom_command_domain config) data
          \<or> ((\<forall>e. json_loads L data \<noteq> LoadsRaised e) \<and> parsed_control_method L config data = None)"
  then show "forward_client_step L config (Receive (Some data) bytes) ls = ([], [TextData data], ls, True)"
    by (auto simp: forward_text_frame [OF assms] handle_custom_command_cases
        split: loads_result.splits)
next
  fix meth msg
  assume "py_in (custom_command_domain config) data
          \<and> parsed_control_method L config data = Some (meth, msg)
          \<and> meth \<noteq> custom_command_domain config @ ''.setLoggingEnabled''"
  then show "forward_client_step L config (Receive (Some data) bytes) ls =
          ([error_response (command_id_of msg) (- 32601) ''Method not found''], [], ls, True)"
    by (simp add: forward_text_frame [OF assms] handle_custom_command_cases)
next
  fix msg
  assume "py_in (custom_command_domain config) data
          \<and> parsed_control_method L config data
              = Some (custom_command_domain config @ ''.setLoggingEnabled'', msg)
          \<and> map_of msg ''params'' = None"
  then show "forward_client_step L config (Receive (Some data) bytes) ls =
          ([success_response (command_id_of msg)], [], ls\<lparr>enabled := False\<rparr>, True)"
    by (simp add: forward_text_frame [OF assms] handle_custom_command_cases)
next
  fix msg ps
  assume "py_in (custom_command_domain config) data
          \<and> parsed_control_method L config data
              = Some (custom_command_domain config @ ''.setLoggingEnabled'', msg)
          \<and> map_of msg ''params'' = Some (JObj ps)"
  then show "forward_client_step L config (Receive (Some data) bytes) ls =
          ([success_response (command_id_of msg)], [],
           ls\<lparr>enabled := truthy (case map_of ps ''enabled'' of None \<Rightarrow> JBool False | Some e \<Rightarrow> e)\<rparr>,
           True)"
    by (simp add: forward_text_frame [OF assms] handle_custom_command_cases)
next
  fix msg p
  assume "py_in (custom_command_domain config) data
          \<and> parsed_control_method L config data
              = Some (custom_command_domain config @ ''.setLoggingEnabled'', msg)
          \<and> map_of msg ''params'' = Some p \<and> (\<forall>ps. p \<noteq> JObj ps)"
  then show "forward_client_step L config (Receive (Some data) bytes) ls = ([], [TextData data], ls, True)"
    by (cases p) (simp_all add: forward_text_frame [OF assms] handle_custom_command_cases)
next
  assume "\<not> py_in (custom_command_domain config) data \<or> (\<forall>e. json_loads L data \<noteq> LoadsRaised e)"
  from handle_custom_command_shape [OF this, of ls]
  show "\<exists>ls'. (\<exists>reply. forward_client_step L config (Receive (Some data) bytes) ls
                          = ([reply], [], ls', True))
              \<or> forward_client_step L config (Receive (Some data) bytes) ls
                          = ([], [TextData data], ls', True)"
  proof
    assume "\<exists>reply ls'. handle_custom_command L config data ls = Inr (True, [reply], ls')"
    then obtain reply ls' where "handle_custom_command L config data ls = Inr (True, [reply], ls')"
      by blast
    then have "forward_client_step L config (Receive (Some data) bytes) ls = ([reply], [], ls', True)"
      by (simp add: forward_text_frame [OF assms])
    then show ?thesis by blast
  next
    assume "handle_custom_command L config data ls = Inr (False, [], ls)"
    then have "forward_client_step L config (Receive (Some data) bytes) ls = ([], [TextData data], ls, True)"
      by (simp add: forward_text_frame [OF assms])
    then show ?thesis by blast
  qed
qed

lemma example_frames_differ:
  "set_logging_frame \<noteq> unknown_verb_frame" "set_logging_frame \<noteq> page_enable_frame"
  "set_logging_frame \<noteq> escaped_frame" "unknown_verb_frame \<noteq> page_enable_frame"
  "unknown_verb_frame \<noteq> escaped_frame" "page_enable_frame \<noteq> escaped_frame"
  "set_logging_frame \<noteq> []" "unknown_verb_frame \<noteq> []" "page_enable_frame \<noteq> []"
  "escaped_frame \<noteq> []" "bare_set_logging_frame \<noteq> []"
  "bare_set_logging_frame \<noteq> set_logging_frame" "bare_set_logging_frame \<noteq> unknown_verb_frame"
  "bare_set_logging_frame \<noteq> page_enable_frame" "bare_set_logging_frame \<noteq> escaped_frame"
  "null_params_frame \<noteq> []"
  "null_params_frame \<noteq> set_logging_frame" "null_params_frame \<noteq> unknown_verb_frame"
  "null_params_frame \<noteq> page_enable_frame" "null_params_frame \<noteq> escaped_frame"
  "null_params_frame \<noteq> bare_set_logging_frame"
  by (simp_all add: set_logging_frame_def unknown_verb_frame_def page_enable_frame_def
      escaped_frame_def bare_set_logging_frame_def null_params_frame_def dquote_def)

lemma example_json_loads_frames:
  "example_json_loads set_logging_frame =
     Loaded (JObj [(''method'', JStr ''CDPProxy.setLoggingEnabled''), (''id'', JInt 7),
                   (''params'', JObj [(''enabled'', JBool True)])])"
  "example_json_loads unknown_verb_frame =
     Loaded (JObj [(''method'', JStr ''CDPProxy.reset''), (''id'', JInt 8)])"
  "example_json_loads page_enable_frame =
     Loaded (JObj [(''method'', JStr ''Page.enable''), (''id'', JInt 9)])"
  "example_json_loads escaped_frame =
     Loaded (JObj [(''method'', JStr ''CDPProxy.setLoggingEnabled''), (''id'', JInt 7)])"
  "example_json_loads bare_set_logging_frame =
     Loaded (JObj [(''method'', JStr ''CDPProxy.setLoggingEnabled''), (''id'', JInt 3)])"
  "example_json_loads null_params_frame =
     Loaded (JObj [(''method'', JStr ''CDPProxy.setLoggingEnabled''), (''id'', JInt 5),
                   (''params'', JNull)])"
  using example_frames_differ by (simp_all add: example_json_loads_def)

lemma example_frames_domain:
  "py_in ''CDPProxy'' set_logging_frame" "py_in ''CDPProxy'' unknown_verb_frame"
  "\<not> py_in ''CDPProxy'' page_enable_frame" "\<not> py_in ''CDPProxy'' escaped_frame"
  "py_in ''CDPProxy'' bare_set_logging_frame" "py_in ''CDPProxy'' null_params_frame"
  by (simp_all add: set_logging_frame_def unknown_verb_frame_def page_enable_frame_def
      escaped_frame_def bare_set_logging_frame_def null_params_frame_def dquote_def)

text \<open>
  The example of the specification (\<open>setLoggingEnabled\<close> with id 7 is answered with
  \<open>{"id": 7, "result": {}}\<close>), an unknown verb of the domain, a frame of the debugging
  protocol itself, \<open>setLoggingEnabled\<close> without \<open>params\<close>, a frame that contains the
  domain name and is not JSON, and \<open>setLoggingEnabled\<close> with \<open>params\<close> \<open>null\<close>.
\<close>

theorem text_frame_dispatch_witness:
  "forward_client_step (example_lib\<lparr>json_loads := example_json_loads\<rparr>) example_cdp_config
      (Receive (Some set_logging_frame) None) \<lparr>enabled = False\<rparr>
     = ([JObj [(''id'', JInt 7), (''result'', JObj [])]], [], \<lparr>enabled = True\<rparr>, True)
   \<and> forward_client_step (example_lib\<lparr>json_loads := example_json_loads\<rparr>) example_cdp_config
      (Receive (Some unknown_verb_frame) None) \<lparr>enabled = False\<rparr>
     = ([JObj [(''id'', JInt 8),
               (''error'', JObj [(''code'', JInt (- 32601)), (''message'', JStr ''Method not found'')])]],
        [], \<lparr>enabled = False\<rparr>, True)
   \<and> forward_client_step (example_lib\<lparr>json_loads := example_json_loads\<rparr>) example_cdp_config
      (Receive (Some page_enable_frame) None) \<lparr>enabled = False\<rparr>
     = ([], [TextData page_enable_frame], \<lparr>enabled = False\<rparr>, True)
   \<and> forward_client_step (example_lib\<lparr>json_loads := example_json_loads\<rparr>) example_cdp_config
      (Receive (Some bare_set_logging_frame) None) \<lparr>enabled = True\<rparr>
     = ([JObj [(''id'', JInt 3), (''result'', JObj [])]], [], \<lparr>enabled = False\<rparr>, True)
   \<and> forward_client_step (example_lib\<lparr>json_loads := example_json_loads\<rparr>) example_cdp_config
      (Receive (Some ''CDPProxy.setLoggingEnabled'') None) \<lparr>enabled = False\<rparr>
     = ([], [TextData ''CDPProxy.setLoggingEnabled''], \<lparr>enabled = False\<rparr>, True)
   \<and> forward_client_step (example_lib\<lparr>json_loads := example_json_loads\<rparr>) example_cdp_config
      (Receive (Some null_params_frame) None) \<lparr>enabled = True\<rparr>
     = ([], [TextData null_params_frame], \<lparr>enabled = True\<rparr>, True)"
proof -
  have dom: "custom_command_domain example_cdp_config = ''CDPProxy''"
    by (simp add: example_cdp_config_def)
  have p1: "parsed_control_method (example_lib\<lparr>json_loads := example_json_loads\<rparr>) example_cdp_config
        set_logging_frame
      = Some (''CDPProxy.setLoggingEnabled'',
              [(''method'', JStr ''CDPProxy.setLoggingEnabled''), (''id'', JInt 7),
               (''params'', JObj [(''enabled'', JBool True)])])"
    by (simp add: parsed_control_method_def example_json_loads_frames dom)
  have p2: "parsed_control_method (example_lib\<lparr>json_loads := example_json_loads\<rparr>) example_cdp_config
        unknown_verb_frame
      = Some (''CDPProxy.reset'', [(''method'', JStr ''CDPProxy.reset''), (''id'', JInt 8)])"
    by (simp add: parsed_control_method_def example_json_loads_frames dom)
  have a: "forward_client_step (example_lib\<lparr>json_loads := example_json_loads\<rparr>) example_cdp_config
      (Receive (Some set_logging_frame) None) \<lparr>enabled = False\<rparr>
     = ([JObj [(''id'', JInt 7), (''result'', JObj [])]], [], \<lparr>enabled = True\<rparr>, True)"
    using text_frame_dispatch [OF example_frames_differ(7), THEN conjunct2, THEN conjunct2,
        THEN conjunct2, THEN conjunct1, rule_format,
        where L = "example_lib\<lparr>json_loads := example_json_loads\<rparr>" and config = example_cdp_config
        and ps = "[(''enabled'', JBool True)]"
        and msg = "[(''method'', JStr ''CDPProxy.setLoggingEnabled''), (''id'', JInt 7),
               (''params'', JObj [(''enabled'', JBool True)])]"]
    by (simp add: dom p1 example_frames_domain success_response_def command_id_of_def)
  have b: "forward_client_step (example_lib\<lparr>json_loads := example_json_loads\<rparr>) example_cdp_config
      (Receive (Some unknown_verb_frame) None) \<lparr>enabled = False\<rparr>
     = ([JObj [(''id'', JInt 8),
               (''error'', JObj [(''code'', JInt (- 32601)), (''message'', JStr ''Method not found'')])]],
        [], \<lparr>enabled = False\<rparr>, True)"
    using text_frame_dispatch [OF example_frames_differ(8), THEN conjunct2, THEN conjunct1, rule_format,
        where L = "example_lib\<lparr>json_loads := example_json_loads\<rparr>" and config = example_cdp_config
        and meth = "''CDPProxy.reset''"
        and msg = "[(''method'', JStr ''CDPProxy.reset''), (''id'', JInt 8)]"]
    by (simp add: dom p2 example_frames_domain error_response_def command_id_of_def)
  have c: "forward_client_step (example_lib\<lparr>json_loads := example_json_loads\<rparr>) example_cdp_config
      (Receive (Some page_enable_frame) None) \<lparr>enabled = False\<rparr>
     = ([], [TextData page_enable_frame], \<lparr>enabled = False\<rparr>, True)"
    using text_frame_dispatch [OF example_frames_differ(9), THEN conjunct1, rule_format,
        where L = "example_lib\<lparr>json_loads := example_json_loads\<rparr>" and config = example_cdp_config]
    by (simp add: dom example_frames_domain)
  have p3: "parsed_control_method (example_lib\<lparr>json_loads := example_json_loads\<rparr>) example_cdp_config
        bare_set_logging_frame
      = Some (''CDPProxy.setLoggingEnabled'',
              [(''method'', JStr ''CDPProxy.setLoggingEnabled''), (''id'', JInt 3)])"
    by (simp add: parsed_control_method_def example_json_loads_frames dom)
  have d: "forward_client_step (example_lib\<lparr>json_loads := example_json_loads\<rparr>) example_cdp_config
      (Receive (Some bare_set_logging_frame) None) \<lparr>enabled = True\<rparr>
     = ([JObj [(''id'', JInt 3), (''result'', JObj [])]], [], \<lparr>enabled = False\<rparr>, True)"
    using text_frame_dispatch [OF example_frames_differ(11), THEN conjunct2, THEN conjunct2,
        THEN conjunct1, rule_format,
        where L = "example_lib\<lparr>json_loads := example_json_loads\<rparr>" and config = example_cdp_config
        and msg = "[(''method'', JStr ''CDPProxy.setLoggingEnabled''), (''id'', JInt 3)]"]
    by (simp add: dom p3 example_frames_domain success_response_def command_id_of_def)
  have word: "''CDPProxy.setLoggingEnabled'' \<noteq> []"
    by simp
  have not_json: "example_json_loads ''CDPProxy.setLoggingEnabled'' = JSONDecodeError"
    by (simp add: example_json_loads_def set_logging_frame_def unknown_verb_frame_def
        page_enable_frame_def escaped_frame_def bare_set_logging_frame_def null_params_frame_def)
  have e: "forward_client_step (example_lib\<lparr>json_loads := example_json_loads\<rparr>) example_cdp_config
      (Receive (Some ''CDPProxy.setLoggingEnabled'') None) \<lparr>enabled = False\<rparr>
     = ([], [TextData ''CDPProxy.setLoggingEnabled''], \<lparr>enabled = False\<rparr>, True)"
    using text_frame_dispatch [OF word, THEN conjunct1, rule_format,
        where L = "example_lib\<lparr>json_loads := example_json_loads\<rparr>" and config = example_cdp_config]
    by (simp add: dom not_json parsed_control_method_def)
  have p4: "parsed_control_method (example_lib\<lparr>json_loads := example_json_loads\<rparr>) example_cdp_config
        null_params_frame
      = Some (''CDPProxy.setLoggingEnabled'',
              [(''method'', JStr ''CDPProxy.setLoggingEnabled''), (''id'', JInt 5), (''params'', JNull)])"
    by (simp add: parsed_control_method_def example_json_loads_frames dom)
  have f: "forward_client_step (example_lib\<lparr>json_loads := example_json_loads\<rparr>) example_cdp_config
      (Receive (Some null_params_frame) None) \<lparr>enabled = True\<rparr>
     = ([], [TextData null_params_frame], \<lparr>enabled = True\<rparr>, True)"
    using text_frame_dispatch [OF example_frames_differ(16), THEN conjunct2, THEN conjunct2,
        THEN conjunct2, THEN conjunct2, THEN conjunct1, rule_format,
        where L = "example_lib\<lparr>json_loads := example_json_loads\<rparr>" and config = example_cdp_config
        and p = JNull
        and msg = "[(''method'', JStr ''CDPProxy.setLoggingEnabled''), (''id'', JInt 5), (''params'', JNull)]"]
    by (simp add: dom p4 example_frames_domain)
  show ?thesis
    using a b c d e f by simp
qed

text \<open>
  C7 as stated fails for a frame that passes the structural check while its text does
  not contain the domain name: the handler looks for the name in the text before it
  parses, so the frame with the escaped letter, whose method is
  \<open>CDPProxy.setLoggingEnabled\<close> once parsed, is sent upstream and gets no reply.
\<close>

theorem escaped_control_frame_counterexample:
  "parsed_control_method (example_lib\<lparr>json_loads := example_json_loads\<rparr>) example_cdp_config
      escaped_frame
     = Some (''CDPProxy.setLoggingEnabled'',
             [(''method'', JStr ''CDPProxy.setLoggingEnabled''), (''id'', JInt 7)])
   \<and> forward_client_step (example_lib\<lparr>json_loads := example_json_loads\<rparr>) example_cdp_config
      (Receive (Some escaped_frame) None) \<lparr>enabled = False\<rparr>
     = ([], [TextData escaped_frame], \<lparr>enabled = False\<rparr>, True)"
proof -
  have dom: "custom_command_domain example_cdp_config = ''CDPProxy''"
    by (simp add: example_cdp_config_def)
  show ?thesis
    by (simp add: parsed_control_method_def example_json_loads_frames dom forward_client_step_def
        frame_data_def example_frames_differ handle_custom_command_def example_frames_domain)
qed

section \<open>Further properties of the handlers\<close>

text \<open>
  The cases that the amended form of C7 does not speak of.  An empty text frame is
  neither answered nor sent upstream: the empty text gives way to the absent bytes, and
  the loop goes on.  A frame that contains the domain name and on which \<open>json.loads\<close>
  raises an error other than \<open>JSONDecodeError\<close> is neither answered nor sent upstream,
  and the loop ends: no later frame of the client is relayed.  A binary frame is always
  sent upstream.
\<close>

lemma empty_text_frame_dropped:
  "forward_client_step L config (Receive (Some []) None) logging_state = ([], [], logging_state, True)"
  by (simp add: forward_client_step_def frame_data_def)

lemma loads_error_ends_relay:
  assumes "data \<noteq> []" and "py_in (custom_command_domain config) data"
    and "json_loads L data = LoadsRaised e"
  shows "forward_client_step L config (Receive (Some data) bytes) logging_state
     = ([], [], logging_state, False)"
    and "forward_client_to_cdp L config (Receive (Some data) bytes # messages) logging_state
     = ([], [], logging_state)"
  using assms
  by (simp_all add: forward_text_frame handle_custom_command_def)

lemma binary_frame_forwarded:
  "forward_client_step L config (Receive None (Some data)) logging_state
     = ([], [BytesData data], logging_state, True)"
  by (simp add: forward_client_step_def frame_data_def)

text \<open>
  A disconnect ends the loop, and a message of another type is passed over.  In a
  session, the frames are handled one after the other until the client disconnects:
  what comes after the disconnect is not read.
\<close>

lemma disconnect_ends_relay:
  "forward_client_step L config (Disconnect code reason) logging_state = ([], [], logging_state, False)"
  "forward_client_step L config OtherMessage logging_state = ([], [], logging_state, True)"
  by (simp_all add: forward_client_step_def)

lemma relay_session_example:
  "forward_client_to_cdp (example_lib\<lparr>json_loads := example_json_loads\<rparr>) example_cdp_config
      [Receive (Some set_logging_frame) None, Receive (Some page_enable_frame) None,
       Receive None (Some ''binary''), Disconnect 1000 [], Receive (Some page_enable_frame) None]
      \<lparr>enabled = False\<rparr>
     = ([JObj [(''id'', JInt 7), (''result'', JObj [])]],
        [TextData page_enable_frame, BytesData ''binary''],
        \<lparr>enabled = True\<rparr>)"
proof -
  have dom: "custom_command_domain example_cdp_config = ''CDPProxy''"
    by (simp add: example_cdp_config_def)
  have first: "forward_client_step (example_lib\<lparr>json_loads := example_json_loads\<rparr>) example_cdp_config
      (Receive (Some set_logging_frame) None) \<lparr>enabled = False\<rparr>
     = ([JObj [(''id'', JInt 7), (''result'', JObj [])]], [], \<lparr>enabled = True\<rparr>, True)"
    by (simp add: forward_text_frame example_frames_differ handle_custom_command_def dom
        example_frames_domain example_json_loads_frames success_response_def)
  have second: "forward_client_step (example_lib\<lparr>json_loads := example_json_loads\<rparr>) example_cdp_config
      (Receive (Some page_enable_frame) None) ls
     = ([], [TextData page_enable_frame], ls, True)" for ls
    by (simp add: forward_text_frame example_frames_differ handle_custom_command_def dom
        example_frames_domain)
  show ?thesis
    by (simp add: first second binary_frame_forwarded disconnect_ends_relay)
qed

text \<open>
  An upstream response with a status other than 200 is handed on with its status, its
  headers and its body, and nothing in it is rewritten.
\<close>

lemma upstream_error_forwarded:
  assumes "is_configured config"
    and "upstream (upstream_request config req) = UpstreamResponse st hs body" and "st \<noteq> 200"
  shows "fst (handle_http_request config upstream req)
     = Inr \<lparr>status_code = st, content = body, resp_headers = Some hs, media_type = None\<rparr>"
  using assms by (simp add: handle_http_request_def Let_def)

text \<open>
  With a complete configuration the inbound WebSocket is accepted first, and the upstream
  connection is asked for at \<open>ws://<netloc>/devtools/<path>\<close>.
\<close>

lemma websocket_configured_accepts_then_connects:
  assumes "is_configured config" and "cdp_netloc config = Some netloc"
  shows "take 2 (handle_websocket_request config session path)
     = [Accept, Connect (''ws://'' @ netloc @ ''/devtools/'' @ path)]"
  using assms by (simp add: handle_websocket_request_def Let_def)

text \<open>Without a public key, \<open>_validate_jwt\<close> answers 503 before it looks at the token.\<close>

lemma jwt_unavailable_without_key:
  assumes "jwt_public_key config = None \<or> jwt_public_key config = Some []"
  shows "validate_jwt L config service now token =
     (Inl (HTTPException 503
        ''Authentication is not possible. JWT public key has not been configured.''), service)"
  using assms by (auto simp: validate_jwt_def)

text \<open>
  A token that is not in the cache and that the verifier rejects is refused with 401, and
  nothing is stored.
\<close>

lemma jwt_rejected:
  assumes "jwt_public_key config = Some key" and "key \<noteq> []"
    and "\<not> cache_hit (jwt_cache service) now token"
  shows "jwt_decode L token key (jwt_algorithms config) = ExpiredSignatureError \<Longrightarrow>
      validate_jwt L config service now token
        = (Inl (HTTPException 401 ''Token has expired''), service)"
    and "jwt_decode L token key (jwt_algorithms config) = PyJWTError e \<Longrightarrow>
      validate_jwt L config service now token
        = (Inl (HTTPException 401 (''Invalid token: '' @ e)), service)"
  using assms by (simp_all add: validate_jwt_def)

text \<open>
  What the amended form of C4 does not speak of: an expiry claim that is not an integer
  (PyJWT accepts a number with a fraction) or is zero.  The code stores the token for the
  default cache TTL then, as for a token without an expiry claim: a token with expiry
  claim 1600.5, accepted at clock 1000, is served from the cache until 2800.
\<close>

lemma jwt_fractional_expiry_cached_with_default:
  "jwt_cache (snd (validate_jwt
        (example_lib\<lparr>jwt_decode := (\<lambda>token key algorithms. Decoded [(''exp'', JFloat (3201 / 2))])\<rparr>)
        example_config empty_service 1000 ''eyJ.e30.c2ln''))
     = [(''eyJ.e30.c2ln'', 2800, True)]
   \<and> fst (validate_jwt
        (example_lib\<lparr>jwt_decode := (\<lambda>token key algorithms. PyJWTError ''Signature has expired'')\<rparr>)
        example_config
        (snd (validate_jwt
           (example_lib\<lparr>jwt_decode := (\<lambda>token key algorithms. Decoded [(''exp'', JFloat (3201 / 2))])\<rparr>)
           example_config empty_service 1000 ''eyJ.e30.c2ln''))
        2799 ''eyJ.e30.c2ln'')
     = Inr [(''status'', ''ok''), (''message'', ''Access granted from cache.'')]"
proof -
  have stored: "snd (validate_jwt
        (example_lib\<lparr>jwt_decode := (\<lambda>token key algorithms. Decoded [(''exp'', JFloat (3201 / 2))])\<rparr>)
        example_config empty_service 1000 ''eyJ.e30.c2ln'')
      = empty_service\<lparr>jwt_cache := [(''eyJ.e30.c2ln'', 2800, True)]\<rparr>"
    by (simp add: validate_jwt_def example_config_def empty_service_def cache_hit_def cache_get_def
        cache_set_def prune_def over_threshold_def threshold_def normalize_timeout_def py_int_def)
  show ?thesis
    unfolding stored
    by (simp add: validate_jwt_def example_config_def empty_service_def cache_hit_def cache_get_def)
qed

text \<open>
  What the failing input of C2 leaves aside: the ticket store keeps no more than 500
  entries besides the one it stores.  A \<open>set\<close> on a cache of 501 entries of which
  none has expired takes the entry with the earliest expiry out, and so a ticket whose
  TTL has not elapsed is refused once enough later tickets have been issued.
\<close>

lemma prune_within_threshold:
  "length c \<le> threshold \<Longrightarrow> prune c now = c"
  by (simp add: prune_def over_threshold_def)

lemma length_delete_distinct:
  assumes "distinct (map fst c)" and "k \<in> fst ` set c"
  shows "length (AList.delete k c) = length c - 1"
  using assms
proof (induction c)
  case Nil
  then show ?case by simp
next
  case (Cons x xs)
  show ?case
  proof (cases "fst x = k")
    case True
    with Cons.prems(1) have "k \<notin> fst ` set xs" by auto
    with True show ?thesis by simp
  next
    case False
    with Cons.prems have dom: "k \<in> fst ` set xs" and "distinct (map fst xs)" by auto
    with Cons.IH have "length (AList.delete k xs) = length xs - 1" by simp
    moreover from dom have "xs \<noteq> []" by auto
    ultimately show ?thesis using False by (cases xs) simp_all
  qed
qed

lemma prune_evicts_oldest:
  assumes "distinct (map fst c)" and "length c = Suc threshold"
    and "list_all (\<lambda>(key, expires, v). \<not> real_of_int expires < now) c"
    and "sort_key (\<lambda>(key, expires, v). expires) c = (k0, e0, v0) # rest"
  shows "prune c now = AList.delete k0 c"
proof -
  have over: "over_threshold c"
    using assms(2) by (simp add: over_threshold_def)
  have kept: "remove_expired c now = c"
    using assms(3) by (simp add: remove_expired_def list_all_iff filter_id_conv)
  have "(k0, e0, v0) \<in> set (sort_key (\<lambda>(key, expires, v). expires) c)"
    using assms(4) by simp
  then have "k0 \<in> fst ` set c"
    by (simp add: image_iff) force
  then have "length (AList.delete k0 c) = threshold"
    using length_delete_distinct [OF assms(1)] assms(2) by simp
  then have fits: "\<not> over_threshold (AList.delete k0 c)"
    by (simp add: over_threshold_def)
  show ?thesis
    using over kept fits assms(4) by (simp add: prune_def remove_older_def Let_def)
qed

lemma cache_set_evicts_oldest:
  assumes "distinct (map fst c)" and "length c = Suc threshold"
    and "list_all (\<lambda>(key, expires, v). \<not> real_of_int expires < now) c"
    and "sort_key (\<lambda>(key, expires, v). expires) c = (k0, e0, v0) # rest"
    and "key \<noteq> k0"
  shows "cache_get (cache_set c now key v timeout) later k0 = None"
  using assms(5)
  by (simp add: cache_get_def cache_set_def prune_evicts_oldest [OF assms(1-4)] update_conv'
      delete_conv')

lemma ticket_evicted_before_expiry:
  assumes "distinct (map fst (ticket_cache service))"
    and "length (ticket_cache service) = Suc threshold"
    and "list_all (\<lambda>(key, expires, v). \<not> real_of_int expires < now) (ticket_cache service)"
    and "sort_key (\<lambda>(key, expires, v). expires) (ticket_cache service) = (oldest, e0, v0) # rest"
    and "ticket \<noteq> oldest"
  shows "\<not> validate_ticket (snd (create_ticket config ticket now service)) later oldest"
  using cache_set_evicts_oldest [OF assms, of True "ticket_ttl config" later]
  by (simp add: validate_ticket_def create_ticket_def)

text \<open>
  So it is for tickets issued one after the other on an empty store, under a positive
  TTL and all within one reading of the clock: after 500 more tickets the first ticket is
  still valid, and after 501 more it is refused, at that same reading of the clock.
\<close>

lemma update_fresh_key:
  "key \<notin> fst ` set c \<Longrightarrow> AList.update key v c = c @ [(key, v)]"
  by (induction c) auto

lemma issue_tickets_append:
  "issue_tickets config (xs @ ys) now service
     = issue_tickets config ys now (issue_tickets config xs now service)"
  by (induction xs arbitrary: service) simp_all

lemma issue_tickets_within_threshold:
  assumes "distinct tickets" and "set tickets \<inter> fst ` set (ticket_cache service) = {}"
    and "length (ticket_cache service) + length tickets \<le> Suc threshold"
  shows "ticket_cache (issue_tickets config tickets now service)
     = ticket_cache service
         @ map (\<lambda>ticket. (ticket, normalize_timeout now (ticket_ttl config), True)) tickets"
  using assms
proof (induction tickets arbitrary: service)
  case Nil
  then show ?case by simp
next
  case (Cons t ts)
  let ?service = "snd (create_ticket config t now service)"
  from Cons.prems have fresh: "t \<notin> fst ` set (ticket_cache service)"
    and fits: "length (ticket_cache service) \<le> threshold"
    by auto
  then have stored: "ticket_cache ?service
      = ticket_cache service @ [(t, normalize_timeout now (ticket_ttl config), True)]"
    by (simp add: create_ticket_def cache_set_def prune_within_threshold update_fresh_key)
  from Cons.prems have "distinct ts"
    and "set ts \<inter> fst ` set (ticket_cache ?service) = {}"
    and "length (ticket_cache ?service) + length ts \<le> Suc threshold"
    by (auto simp: stored)
  then have "ticket_cache (issue_tickets config ts now ?service)
      = ticket_cache ?service
          @ map (\<lambda>ticket. (ticket, normalize_timeout now (ticket_ttl config), True)) ts"
    by (rule Cons.IH)
  then show ?case
    by (simp add: stored)
qed

lemma clock_before_expiry:
  assumes "0 < timeout"
  shows "now < real_of_int (normalize_timeout now timeout)"
proof -
  have "now < real_of_int (py_int now) + 1"
    by (simp add: py_int_def) linarith
  moreover have "real_of_int (py_int now) + 1 \<le> real_of_int (py_int now + timeout)"
    using assms by simp
  ultimately show ?thesis
    using assms by (simp add: normalize_timeout_def)
qed

lemma ticket_gone_after_501_more:
  assumes "0 < ticket_ttl config" and "distinct (first # tickets @ [last_ticket])"
    and "length tickets = threshold"
  shows "validate_ticket
           (issue_tickets config (first # tickets) now \<lparr>jwt_cache = [], ticket_cache = []\<rparr>)
           now first"
    and "\<not> validate_ticket
           (issue_tickets config (first # tickets @ [last_ticket]) now
              \<lparr>jwt_cache = [], ticket_cache = []\<rparr>)
           now first"
proof -
  define e where "e = normalize_timeout now (ticket_ttl config)"
  define service where
    "service = issue_tickets config (first # tickets) now \<lparr>jwt_cache = [], ticket_cache = []\<rparr>"
  have valid: "now < real_of_int e"
    unfolding e_def using assms(1) by (rule clock_before_expiry)
  have "ticket_cache service
      = ticket_cache \<lparr>jwt_cache = [], ticket_cache = []\<rparr>
          @ map (\<lambda>ticket. (ticket, e, True)) (first # tickets)"
    unfolding service_def e_def using assms(2,3) by (intro issue_tickets_within_threshold) auto
  then have cache: "ticket_cache service = (first, e, True) # map (\<lambda>ticket. (ticket, e, True)) tickets"
    by simp
  have "validate_ticket service now first"
    using valid by (simp add: validate_ticket_def cache_get_def cache)
  then show "validate_ticket
           (issue_tickets config (first # tickets) now \<lparr>jwt_cache = [], ticket_cache = []\<rparr>)
           now first"
    unfolding service_def .
  have keys: "distinct (map fst (ticket_cache service))"
    using assms(2) by (auto simp: cache comp_def)
  have full: "length (ticket_cache service) = Suc threshold"
    using assms(3) by (simp add: cache)
  have fresh: "list_all (\<lambda>(key, expires, v). \<not> real_of_int expires < now) (ticket_cache service)"
    using valid by (simp add: cache list_all_iff)
  have "sorted (map (\<lambda>(key, expires, v). expires) (ticket_cache service))"
    by (simp add: cache comp_def map_replicate_const)
  then have order: "sort_key (\<lambda>(key, expires, v). expires) (ticket_cache service)
      = (first, e, True) # map (\<lambda>ticket. (ticket, e, True)) tickets"
    using sort_key_id_if_sorted [of "\<lambda>(key, expires, v). expires" "ticket_cache service"]
    by (simp add: cache)
  have other: "last_ticket \<noteq> first"
    using assms(2) by auto
  have gone: "\<not> validate_ticket (snd (create_ticket config last_ticket now service)) now first"
    using keys full fresh order other by (rule ticket_evicted_before_expiry)
  have "issue_tickets config ((first # tickets) @ [last_ticket]) now
        \<lparr>jwt_cache = [], ticket_cache = []\<rparr>
      = snd (create_ticket config last_ticket now service)"
    unfolding service_def issue_tickets_append by simp
  then show "\<not> validate_ticket
           (issue_tickets config (first # tickets @ [last_ticket]) now
              \<lparr>jwt_cache = [], ticket_cache = []\<rparr>)
           now first"
    using gone by simp
qed

text \<open>
  The headers that \<open>authenticate_request\<close> hands to the verifier: a scheme without
  white space, white space, and a token that does not start with white space split into
  the scheme and the token, and the token is kept up to the end of the header.
\<close>

lemma split_maxsplit1_bearer_form:
  assumes "scheme \<noteq> []" and "list_all (\<lambda>c. \<not> py_isspace c) scheme"
    and "gap \<noteq> []" and "list_all py_isspace gap"
    and "token \<noteq> []" and "\<not> py_isspace (hd token)"
  shows "split_maxsplit1 (scheme @ gap @ token) = [scheme, token]"
proof -
  have ns: "\<And>c. c \<in> set scheme \<Longrightarrow> \<not> py_isspace c"
    and sp: "\<And>c. c \<in> set gap \<Longrightarrow> py_isspace c"
    using assms(2,4) by (simp_all add: list_all_iff)
  have nonempty: "scheme @ gap @ token \<noteq> []"
    using assms(1) by simp
  have lead: "dropWhile py_isspace (scheme @ gap @ token) = scheme @ gap @ token"
    using ns assms(1) by (cases scheme) simp_all
  have word: "takeWhile (\<lambda>c. \<not> py_isspace c) (scheme @ gap @ token) = scheme"
    using ns sp assms(3) by (cases gap) (simp_all add: takeWhile_append2)
  have after: "dropWhile (\<lambda>c. \<not> py_isspace c) (scheme @ gap @ token) = gap @ token"
    using ns sp assms(3) by (cases gap) (simp_all add: dropWhile_append2)
  have rest: "dropWhile py_isspace (gap @ token) = token"
    using sp assms(5,6) by (cases token) (simp_all add: dropWhile_append2)
  show ?thesis
    unfolding split_maxsplit1_def Let_def lead word after rest
    using nonempty assms(5) by simp
qed

end
